theory Spec2Isabelle
  imports Main "HOL-Library.Char_ord" "HOL-Library.List_Lexorder"
begin

section \<open>The KMS grant resource: data\<close>

text \<open>
  The development follows the grant resource of the provider (\<^verbatim>\<open>resourceAwsKmsGrant\<close> and its
  helpers). Go strings are byte strings, compared bytewise and lexicographically, which is the
  order of \<^typ>\<open>string\<close> under the character order and the lexicographic list order.

  A Go map \<^verbatim>\<open>map[string]*string\<close> has no order of its own: \<^verbatim>\<open>range\<close> visits its entries in an
  order the runtime chooses. It is modelled as the list of its entries in the order in which
  the runtime happens to visit them; the keys of a Go map are pairwise distinct, so a
  well-formed map is a list \<open>m\<close> with \<open>distinct (map fst m)\<close>. Two lists with the same set of
  entries are the same Go map visited in two orders.
\<close>

type_synonym StringMap = "(string \<times> string) list"

text \<open>
  What a computation yields: a value, or a run-time panic (a nil pointer dereference), or
  nothing because the remote service was asked for more answers than its script holds
  (see \<open>KMS\<close> below).
\<close>

datatype 'a outcome = Return 'a | Panic | Unscripted

text \<open>
  One element of the \<^verbatim>\<open>constraints\<close> set of the schema: a \<^verbatim>\<open>map[string]interface{}\<close> with
  the optional keys \<^verbatim>\<open>encryption_context_equals\<close> and \<^verbatim>\<open>encryption_context_subset\<close>, each
  a map of strings (\<^verbatim>\<open>schema.TypeMap\<close>). \<open>None\<close> is an absent key.
\<close>

record constraint =
  encryption_context_equals :: "StringMap option"
  encryption_context_subset :: "StringMap option"

text \<open>
  The argument of the set's hash function is an \<^verbatim>\<open>interface{}\<close>; the function only tells a
  \<^verbatim>\<open>map[string]interface{}\<close> from everything else.
\<close>

datatype iface = MapValue constraint | OtherValue

section \<open>The constraint hash\<close>

definition sortStringMapKeys :: "StringMap \<Rightarrow> string list" where
  "sortStringMapKeys m = sort (map fst m)"

text \<open>\<^verbatim>\<open>strings.Join\<close>.\<close>

fun Join :: "string list \<Rightarrow> string \<Rightarrow> string" where
  "Join [] sep = []"
| "Join [x] sep = x"
| "Join (x # y # ys) sep = x @ sep @ Join (y # ys) sep"

text \<open>
  The loop of \<^verbatim>\<open>sortedConcatStringMap\<close>: \<^verbatim>\<open>strList = append(strList, key, *m[key])\<close>. Indexing
  a Go map at an absent key gives the nil pointer, whose dereference panics.
\<close>

fun appendEntries :: "StringMap \<Rightarrow> string list \<Rightarrow> string list \<Rightarrow> string list outcome" where
  "appendEntries m [] strList = Return strList"
| "appendEntries m (key # mapKeys) strList =
     (case map_of m key of
        None \<Rightarrow> Panic
      | Some v \<Rightarrow> appendEntries m mapKeys (strList @ [key, v]))"

definition sortedConcatStringMap :: "StringMap \<Rightarrow> string \<Rightarrow> string outcome" where
  "sortedConcatStringMap m sep =
     (case appendEntries m (sortStringMapKeys m) [] of
        Return strList \<Rightarrow> Return (Join strList sep)
      | Panic \<Rightarrow> Panic
      | Unscripted \<Rightarrow> Unscripted)"

text \<open>
  One of the two blocks of \<^verbatim>\<open>resourceKmsGrantConstraintsHash\<close> that write to the buffer:
  \<^verbatim>\<open>if v, ok := m[kind]; ok { if len(v) > 0 { buf.WriteString(kind + "-" + ... + "-") } }\<close>.
\<close>

definition writeContext :: "string \<Rightarrow> StringMap option \<Rightarrow> string \<Rightarrow> string outcome" where
  "writeContext kind entry buf =
     (case entry of
        None \<Rightarrow> Return buf
      | Some v \<Rightarrow>
          if length v > 0 then
            (case sortedConcatStringMap v ''-'' of
               Return s \<Rightarrow> Return (buf @ kind @ ''-'' @ s @ ''-'')
             | Panic \<Rightarrow> Panic
             | Unscripted \<Rightarrow> Unscripted)
          else Return buf)"

text \<open>The contents of the buffer when the hash is taken.\<close>

definition constraintsBuffer :: "constraint \<Rightarrow> string outcome" where
  "constraintsBuffer m =
     (case writeContext ''encryption_context_equals'' (encryption_context_equals m) [] of
        Return buf \<Rightarrow>
          writeContext ''encryption_context_subset'' (encryption_context_subset m) buf
      | Panic \<Rightarrow> Panic
      | Unscripted \<Rightarrow> Unscripted)"

text \<open>
  \<^verbatim>\<open>hashcode.String\<close> belongs to a library outside the repository; the hash is taken as the
  parameter \<open>hashcode_String\<close>.
\<close>

definition resourceKmsGrantConstraintsHash :: "(string \<Rightarrow> int) \<Rightarrow> iface \<Rightarrow> int outcome" where
  "resourceKmsGrantConstraintsHash hashcode_String v =
     (case v of
        OtherValue \<Rightarrow> Return 0
      | MapValue m \<Rightarrow>
          (case constraintsBuffer m of
             Return buf \<Rightarrow> Return (hashcode_String buf)
           | Panic \<Rightarrow> Panic
           | Unscripted \<Rightarrow> Unscripted))"

section \<open>Validity of a constraint set\<close>

text \<open>
  \<^verbatim>\<open>constraints.List()\<close> is the list of the set's elements. The loop of
  \<^verbatim>\<open>kmsGrantConstraintsIsValid\<close> adds one for each non-empty map it meets.
\<close>

fun countConstraints :: "constraint list \<Rightarrow> nat \<Rightarrow> nat" where
  "countConstraints [] constraintCount = constraintCount"
| "countConstraints (data # rest) constraintCount =
     (let c1 = (case encryption_context_equals data of
                  Some v \<Rightarrow> if length v > 0 then constraintCount + 1 else constraintCount
                | None \<Rightarrow> constraintCount);
          c2 = (case encryption_context_subset data of
                  Some v \<Rightarrow> if length v > 0 then c1 + 1 else c1
                | None \<Rightarrow> c1)
      in countConstraints rest c2)"

definition kmsGrantConstraintsIsValid :: "constraint list \<Rightarrow> bool" where
  "kmsGrantConstraintsIsValid constraints =
     (if countConstraints constraints 0 > 1 then False else True)"

section \<open>The missing-grant error\<close>

text \<open>
  \<^verbatim>\<open>func (e KmsGrantMissingError) Error() string { return e.Error() }\<close>: the method's body is
  a call of the method itself. \<open>None\<close> is the call that does not return.
\<close>

partial_function (option) KmsGrantMissingError_Error :: "string \<Rightarrow> string option" where
  "KmsGrantMissingError_Error e = KmsGrantMissingError_Error e"

section \<open>Errors and the retry helper\<close>

text \<open>
  The error values the resource handles: an \<^verbatim>\<open>awserr.Error\<close> with its code and message, any
  other error of the client, the resource's own \<^verbatim>\<open>KmsGrantMissingError\<close>, an error made by
  \<^verbatim>\<open>fmt.Errorf\<close> from a format and its arguments, and the error of a retry whose deadline
  has passed.
\<close>

datatype error =
    AwsError string string
  | OtherError string
  | KmsGrantMissingError string
  | Errorf string "fmtarg list"
  | DeadlineExceededError error
and fmtarg = StringArg string | ErrorArg error

definition NewKmsGrantMissingError :: "string \<Rightarrow> error" where
  "NewKmsGrantMissingError msg = KmsGrantMissingError msg"

text \<open>\<^verbatim>\<open>awsErr, ok := err.(awserr.Error)\<close> followed by \<^verbatim>\<open>awsErr.Code()\<close>.\<close>

fun awsErrCode :: "error \<Rightarrow> string option" where
  "awsErrCode (AwsError code msg) = Some code"
| "awsErrCode _ = None"

text \<open>\<^verbatim>\<open>_, ok := err.(KmsGrantMissingError)\<close>.\<close>

fun isKmsGrantMissingError :: "error \<Rightarrow> bool" where
  "isKmsGrantMissingError (KmsGrantMissingError msg) = True"
| "isKmsGrantMissingError _ = False"

datatype RetryError = RetryableError error | NonRetryableError error

text \<open>
  Modelled from the spec: \<^verbatim>\<open>resource.Retry\<close> of the plugin SDK, which is not part of the
  sources. It calls the attempt function until the function reports success (\<open>None\<close>) or a
  non-retryable error, which it returns, or until the deadline of three minutes has passed
  while the failures were retryable; then it returns the last failure wrapped as a
  deadline-exceeded error. Wall-clock time is not modelled: the first argument is the number
  of further attempts that fit into the deadline after the first one. The state \<open>'s\<close> holds
  what the attempt function changes: the variables it captures and the remote service.
\<close>

fun Retry :: "nat \<Rightarrow> ('s \<Rightarrow> (RetryError option \<times> 's) outcome) \<Rightarrow> 's \<Rightarrow> (error option \<times> 's) outcome" where
  "Retry 0 f s =
     (case f s of
        Return (None, s') \<Rightarrow> Return (None, s')
      | Return (Some (NonRetryableError e), s') \<Rightarrow> Return (Some e, s')
      | Return (Some (RetryableError e), s') \<Rightarrow> Return (Some (DeadlineExceededError e), s')
      | Panic \<Rightarrow> Panic
      | Unscripted \<Rightarrow> Unscripted)"
| "Retry (Suc n) f s =
     (case f s of
        Return (None, s') \<Rightarrow> Return (None, s')
      | Return (Some (NonRetryableError e), s') \<Rightarrow> Return (Some e, s')
      | Return (Some (RetryableError e), s') \<Rightarrow> Retry n f s'
      | Panic \<Rightarrow> Panic
      | Unscripted \<Rightarrow> Unscripted)"

section \<open>The remote service\<close>

text \<open>
  The types of the KMS client that the resource reads and writes. A pointer field of the
  client's structs is an \<open>option\<close>, \<open>None\<close> being nil; the fields the resource fills itself
  with \<^verbatim>\<open>aws.String\<close> are plain values.
\<close>

record GrantConstraints =
  EncryptionContextEquals :: "StringMap option"
  EncryptionContextSubset :: "StringMap option"

record GrantListEntry =
  GrantId :: "string option"
  GranteePrincipal :: "string option"
  RetiringPrincipal :: "string option"
  Operations :: "string list"
  Name :: "string option"
  Constraints :: "GrantConstraints option"

record ListGrantsResponse =
  Grants :: "GrantListEntry list"
  NextMarker :: "string option"
  Truncated :: "bool option"

record CreateGrantOutput =
  cgoGrantId :: "string option"
  cgoGrantToken :: "string option"

record CreateGrantInput =
  cgiGranteePrincipal :: string
  cgiKeyId :: string
  cgiOperations :: "string list"
  cgiName :: "string option"
  cgiConstraints :: "GrantConstraints option"
  cgiRetiringPrincipal :: "string option"
  cgiGrantTokens :: "string list option"

record ListGrantsInput =
  lgiKeyId :: string
  lgiLimit :: int
  lgiMarker :: "string option"

record RevokeGrantInput =
  rgiGrantId :: string
  rgiKeyId :: string

datatype call =
    CreateGrantCall CreateGrantInput
  | ListGrantsCall ListGrantsInput
  | RevokeGrantCall RevokeGrantInput

text \<open>
  The connection \<^verbatim>\<open>conn\<close>. The remote service is outside the program, so its behaviour is
  an input: for each operation the script of the answers it gives to the successive calls of
  that operation, each answer being what the client's method returns (the output and the
  error). \<open>calls\<close> is the log of the calls made so far, in order. A call beyond the end of a
  script has no answer: the outcome is \<open>Unscripted\<close>.
\<close>

record KMS =
  createGrantScript :: "(CreateGrantOutput option \<times> error option) list"
  listGrantsScript :: "(ListGrantsResponse option \<times> error option) list"
  revokeGrantScript :: "error option list"
  calls :: "call list"

definition CreateGrant ::
  "CreateGrantInput \<Rightarrow> KMS \<Rightarrow> ((CreateGrantOutput option \<times> error option) \<times> KMS) outcome" where
  "CreateGrant input conn =
     (case createGrantScript conn of
        [] \<Rightarrow> Unscripted
      | answer # script \<Rightarrow>
          Return (answer, conn\<lparr>createGrantScript := script,
                                calls := calls conn @ [CreateGrantCall input]\<rparr>))"

definition ListGrants ::
  "ListGrantsInput \<Rightarrow> KMS \<Rightarrow> ((ListGrantsResponse option \<times> error option) \<times> KMS) outcome" where
  "ListGrants input conn =
     (case listGrantsScript conn of
        [] \<Rightarrow> Unscripted
      | answer # script \<Rightarrow>
          Return (answer, conn\<lparr>listGrantsScript := script,
                                calls := calls conn @ [ListGrantsCall input]\<rparr>))"

definition RevokeGrant :: "RevokeGrantInput \<Rightarrow> KMS \<Rightarrow> (error option \<times> KMS) outcome" where
  "RevokeGrant input conn =
     (case revokeGrantScript conn of
        [] \<Rightarrow> Unscripted
      | answer # script \<Rightarrow>
          Return (answer, conn\<lparr>revokeGrantScript := script,
                                calls := calls conn @ [RevokeGrantCall input]\<rparr>))"

section \<open>Finding a grant\<close>

fun getKmsGrantById :: "GrantListEntry list \<Rightarrow> string \<Rightarrow> GrantListEntry option outcome" where
  "getKmsGrantById [] grantIdentifier = Return None"
| "getKmsGrantById (grant # grants) grantIdentifier =
     (case GrantId grant of
        None \<Rightarrow> Panic
      | Some gid \<Rightarrow>
          if gid = grantIdentifier then Return (Some grant)
          else getKmsGrantById grants grantIdentifier)"

text \<open>
  The function given to \<^verbatim>\<open>resource.Retry\<close> in \<^verbatim>\<open>findKmsGrantById\<close>. It assigns the captured
  variable \<^verbatim>\<open>out\<close>, the first component of the state.
\<close>

definition listGrantsAttempt ::
  "ListGrantsInput \<Rightarrow> ListGrantsResponse option \<times> KMS \<Rightarrow>
     (RetryError option \<times> (ListGrantsResponse option \<times> KMS)) outcome" where
  "listGrantsAttempt input s =
     (case ListGrants input (snd s) of
        Return ((out, err), conn) \<Rightarrow>
          (case err of
             Some e \<Rightarrow>
               (case awsErrCode e of
                  Some code \<Rightarrow>
                    if code = ''NotFoundException'' \<or>
                       code = ''DependencyTimeoutException'' \<or>
                       code = ''InternalException''
                    then Return (Some (RetryableError e), (out, conn))
                    else Return (Some (NonRetryableError e), (out, conn))
                | None \<Rightarrow> Return (Some (NonRetryableError e), (out, conn)))
           | None \<Rightarrow> Return (None, (out, conn)))
      | Panic \<Rightarrow> Panic
      | Unscripted \<Rightarrow> Unscripted)"

lemma Retry_listGrantsAttempt_shorter:
  "Retry n (listGrantsAttempt input) s = Return (err, s') \<Longrightarrow>
   length (listGrantsScript (snd s')) < length (listGrantsScript (snd s))"
proof (induction n arbitrary: s)
  case 0
  then show ?case
    by (auto simp: listGrantsAttempt_def ListGrants_def
        split: list.splits option.splits if_splits)
next
  case (Suc n)
  show ?case
  proof (cases "listGrantsScript (snd s)")
    case Nil
    with Suc.prems show ?thesis
      by (simp add: listGrantsAttempt_def ListGrants_def)
  next
    case (Cons answer script)
    obtain out e where answer: "answer = (out, e)" by (cases answer)
    let ?conn = "(snd s)\<lparr>listGrantsScript := script,
      calls := calls (snd s) @ [ListGrantsCall input]\<rparr>"
    show ?thesis
    proof (cases "listGrantsAttempt input s = Return (Some (RetryableError (the e)), (out, ?conn))")
      case True
      with Suc.prems have "Retry n (listGrantsAttempt input) (out, ?conn) = Return (err, s')"
        by simp
      from Suc.IH [OF this] Cons show ?thesis by simp
    next
      case False
      with Suc.prems Cons answer show ?thesis
        by (auto simp: listGrantsAttempt_def ListGrants_def
            split: option.splits if_splits)
    qed
  qed
qed

definition missingMessage :: "string \<Rightarrow> string \<Rightarrow> string" where
  "missingMessage grantId keyId =
     ''[DEBUG] Grant '' @ grantId @ '' not found for key id: '' @ keyId"

text \<open>
  \<^verbatim>\<open>findKmsGrantById\<close>. The error of the retried \<^verbatim>\<open>ListGrants\<close> call is assigned and never
  read; the function goes on with whatever \<^verbatim>\<open>out\<close> the last attempt left. The dereferences
  \<^verbatim>\<open>*out.Truncated\<close> and \<^verbatim>\<open>*out.NextMarker\<close> panic on nil.
\<close>

function findKmsGrantById ::
  "nat \<Rightarrow> string \<Rightarrow> string \<Rightarrow> string option \<Rightarrow> KMS \<Rightarrow>
     ((GrantListEntry option \<times> error option) \<times> KMS) outcome" where
  "findKmsGrantById retries keyId grantId marker conn =
     (case Retry retries
             (listGrantsAttempt \<lparr>lgiKeyId = keyId, lgiLimit = 100, lgiMarker = marker\<rparr>)
             (None, conn) of
        Return (err, s) \<Rightarrow>
          (case fst s of
             None \<Rightarrow> Panic
           | Some out \<Rightarrow>
               (case getKmsGrantById (Grants out) grantId of
                  Return (Some grant) \<Rightarrow> Return ((Some grant, None), snd s)
                | Return None \<Rightarrow>
                    (case Truncated out of
                       None \<Rightarrow> Panic
                     | Some True \<Rightarrow>
                         (case NextMarker out of
                            None \<Rightarrow> Panic
                          | Some nextMarker \<Rightarrow>
                              findKmsGrantById retries keyId grantId (Some nextMarker) (snd s))
                     | Some False \<Rightarrow>
                         Return ((None,
                           Some (NewKmsGrantMissingError (missingMessage grantId keyId))), snd s))
                | Panic \<Rightarrow> Panic
                | Unscripted \<Rightarrow> Unscripted))
      | Panic \<Rightarrow> Panic
      | Unscripted \<Rightarrow> Unscripted)"
  by pat_completeness auto
termination
proof (relation "measure (\<lambda>(retries, keyId, grantId, marker, conn). length (listGrantsScript conn))")
  show "wf (measure (\<lambda>(retries, keyId, grantId, marker, conn). length (listGrantsScript conn)))"
    by simp
next
  fix retries :: nat and keyId grantId :: string and marker :: "string option" and conn :: KMS
    and x1 :: "error option \<times> ListGrantsResponse option \<times> KMS"
    and err s
  assume "Retry retries
      (listGrantsAttempt \<lparr>lgiKeyId = keyId, lgiLimit = 100, lgiMarker = marker\<rparr>)
      (None, conn) = Return x1" and "(err, s) = x1"
  then have "length (listGrantsScript (snd s)) < length (listGrantsScript conn)"
    using Retry_listGrantsAttempt_shorter [of retries _ "(None, conn)" err s] by simp
  then show "\<And>nextMarker. ((retries, keyId, grantId, Some nextMarker, snd s), retries, keyId, grantId, marker, conn)
      \<in> measure (\<lambda>(retries, keyId, grantId, marker, conn). length (listGrantsScript conn))"
    by simp
qed

declare findKmsGrantById.simps [simp del]

text \<open>
  The function given to \<^verbatim>\<open>resource.Retry\<close> in \<^verbatim>\<open>findKmsGrantByIdWithRetry\<close>; it assigns the
  captured variable \<^verbatim>\<open>grant\<close>.
\<close>

definition findAttempt ::
  "nat \<Rightarrow> string \<Rightarrow> string \<Rightarrow> GrantListEntry option \<times> KMS \<Rightarrow>
     (RetryError option \<times> (GrantListEntry option \<times> KMS)) outcome" where
  "findAttempt retries keyId grantId s =
     (case findKmsGrantById retries keyId grantId None (snd s) of
        Return ((grant, err), conn) \<Rightarrow>
          (case err of
             Some e \<Rightarrow>
               if isKmsGrantMissingError e then Return (Some (RetryableError e), (grant, conn))
               else Return (Some (NonRetryableError e), (grant, conn))
           | None \<Rightarrow> Return (None, (grant, conn)))
      | Panic \<Rightarrow> Panic
      | Unscripted \<Rightarrow> Unscripted)"

definition findKmsGrantByIdWithRetry ::
  "nat \<Rightarrow> string \<Rightarrow> string \<Rightarrow> KMS \<Rightarrow> ((GrantListEntry option \<times> error option) \<times> KMS) outcome" where
  "findKmsGrantByIdWithRetry retries keyId grantId conn =
     (case Retry retries (findAttempt retries keyId grantId) (None, conn) of
        Return (err, s) \<Rightarrow> Return ((fst s, err), snd s)
      | Panic \<Rightarrow> Panic
      | Unscripted \<Rightarrow> Unscripted)"

text \<open>
  The function given to \<^verbatim>\<open>resource.Retry\<close> in \<^verbatim>\<open>waitForKmsGrantToBeRevoked\<close>. Its last line
  is \<^verbatim>\<open>resource.NonRetryableError(err)\<close>, where \<^verbatim>\<open>err\<close> is nil when the search has returned
  neither a grant nor an error; the helper of the SDK is taken to give nil for nil. The search
  never returns so (\<open>findKmsGrantById_result\<close> below), and no theorem depends on this line.
\<close>

definition revokedAttempt ::
  "nat \<Rightarrow> string \<Rightarrow> string \<Rightarrow> KMS \<Rightarrow> (RetryError option \<times> KMS) outcome" where
  "revokedAttempt retries keyId grantId conn0 =
     (case findKmsGrantById retries keyId grantId None conn0 of
        Return ((grant, err), conn) \<Rightarrow>
          if (case err of Some e \<Rightarrow> isKmsGrantMissingError e | None \<Rightarrow> False)
          then Return (None, conn)
          else
            (case grant of
               Some g \<Rightarrow>
                 (case GrantId g of
                    None \<Rightarrow> Panic
                  | Some gid \<Rightarrow>
                      Return (Some (RetryableError (Errorf
                        ''[DEBUG] Grant still exists while expected to be revoked, retyring revocation check: %s''
                        [StringArg gid])), conn))
             | None \<Rightarrow> Return (map_option NonRetryableError err, conn))
      | Panic \<Rightarrow> Panic
      | Unscripted \<Rightarrow> Unscripted)"

definition waitForKmsGrantToBeRevoked ::
  "nat \<Rightarrow> string \<Rightarrow> string \<Rightarrow> KMS \<Rightarrow> (error option \<times> KMS) outcome" where
  "waitForKmsGrantToBeRevoked retries keyId grantId conn =
     Retry retries (revokedAttempt retries keyId grantId) conn"

section \<open>The resource\<close>

text \<open>
  \<^verbatim>\<open>schema.ResourceData\<close> for this schema: the identifier and the attributes. A set of the
  schema is the list of its elements; an unset string attribute is the empty string and an
  unset set is the empty list, which is what \<^verbatim>\<open>d.GetOk\<close> tests.
\<close>

record ResourceData =
  Id :: string
  name :: string
  key_id :: string
  grantee_principal :: string
  operations :: "string list"
  constraints :: "constraint list"
  retiring_principal :: string
  grant_creation_tokens :: "string list"
  grant_id :: string
  grant_token :: string

text \<open>\<^verbatim>\<open>strings.HasPrefix\<close>.\<close>

definition HasPrefix :: "string \<Rightarrow> string \<Rightarrow> bool" where
  "HasPrefix s prefix = (length s \<ge> length prefix \<and> take (length prefix) s = prefix)"

text \<open>
  The loop of \<^verbatim>\<open>expandKmsGrantConstraints\<close>, which sets a field of the one
  \<^verbatim>\<open>kms.GrantConstraints\<close> for every key present in an element of the set.
\<close>

fun setConstraints :: "constraint list \<Rightarrow> GrantConstraints \<Rightarrow> GrantConstraints" where
  "setConstraints [] constraint = constraint"
| "setConstraints (data # rest) constraint =
     (let c1 = (case encryption_context_equals data of
                  Some contextEq \<Rightarrow> constraint\<lparr>EncryptionContextEquals := Some contextEq\<rparr>
                | None \<Rightarrow> constraint);
          c2 = (case encryption_context_subset data of
                  Some contextSub \<Rightarrow> c1\<lparr>EncryptionContextSubset := Some contextSub\<rparr>
                | None \<Rightarrow> c1)
      in setConstraints rest c2)"

definition expandKmsGrantConstraints :: "constraint list \<Rightarrow> GrantConstraints option" where
  "expandKmsGrantConstraints configured =
     (if length configured < 1 then None
      else Some (setConstraints configured
             \<lparr>EncryptionContextEquals = None, EncryptionContextSubset = None\<rparr>))"

definition flattenKmsGrantConstraints :: "GrantConstraints option \<Rightarrow> constraint list" where
  "flattenKmsGrantConstraints constraint =
     (case constraint of
        None \<Rightarrow> []
      | Some c \<Rightarrow>
          [\<lparr>encryption_context_equals =
              (case EncryptionContextEquals c of
                 Some v \<Rightarrow> if length v > 0 then Some v else None
               | None \<Rightarrow> None),
            encryption_context_subset =
              (case EncryptionContextSubset c of
                 Some v \<Rightarrow> if length v > 0 then Some v else None
               | None \<Rightarrow> None)\<rparr>])"

text \<open>
  The part of \<^verbatim>\<open>resourceAwsKmsGrantRead\<close> that copies a grant that was found into the
  state, field by field.
\<close>

definition setGranteePrincipal :: "GrantListEntry \<Rightarrow> ResourceData \<Rightarrow> ResourceData outcome" where
  "setGranteePrincipal grant d =
     (case GranteePrincipal grant of
        None \<Rightarrow> Panic
      | Some p \<Rightarrow>
          if HasPrefix p ''arn:aws'' then Return (d\<lparr>grantee_principal := p\<rparr>) else Return d)"

definition setRetiringPrincipal :: "GrantListEntry \<Rightarrow> ResourceData \<Rightarrow> ResourceData" where
  "setRetiringPrincipal grant d =
     (case RetiringPrincipal grant of
        None \<Rightarrow> d
      | Some p \<Rightarrow> if HasPrefix p ''arn:aws'' then d\<lparr>retiring_principal := p\<rparr> else d)"

definition setName :: "GrantListEntry \<Rightarrow> ResourceData \<Rightarrow> ResourceData outcome" where
  "setName grant d =
     (case Name grant of
        None \<Rightarrow> Panic
      | Some n \<Rightarrow> if n \<noteq> [] then Return (d\<lparr>name := n\<rparr>) else Return d)"

definition setConstraintsState :: "GrantListEntry \<Rightarrow> ResourceData \<Rightarrow> ResourceData" where
  "setConstraintsState grant d =
     (case Constraints grant of
        None \<Rightarrow> d
      | Some c \<Rightarrow> d\<lparr>constraints := flattenKmsGrantConstraints (Some c)\<rparr>)"

definition readGrant :: "GrantListEntry \<Rightarrow> ResourceData \<Rightarrow> ResourceData outcome" where
  "readGrant grant d =
     (case setGranteePrincipal grant d of
        Return d1 \<Rightarrow>
          (case setName grant ((setRetiringPrincipal grant d1)\<lparr>operations := Operations grant\<rparr>) of
             Return d2 \<Rightarrow> Return (setConstraintsState grant d2)
           | Panic \<Rightarrow> Panic
           | Unscripted \<Rightarrow> Unscripted)
      | Panic \<Rightarrow> Panic
      | Unscripted \<Rightarrow> Unscripted)"

text \<open>
  The operations of the resource take the state \<^verbatim>\<open>d\<close> and the connection and return the
  error (\<open>None\<close> is nil) with the state and the connection as they have become.
\<close>

definition resourceAwsKmsGrantRead ::
  "nat \<Rightarrow> ResourceData \<Rightarrow> KMS \<Rightarrow> ((error option \<times> ResourceData) \<times> KMS) outcome" where
  "resourceAwsKmsGrantRead retries d conn0 =
     (case findKmsGrantByIdWithRetry retries (key_id d) (Id d) conn0 of
        Return ((grant, err), conn) \<Rightarrow>
          (case err of
             Some e \<Rightarrow> Return ((Some e, d), conn)
           | None \<Rightarrow>
               (case grant of
                  None \<Rightarrow> Return ((None, d\<lparr>Id := []\<rparr>), conn)
                | Some g \<Rightarrow>
                    (case readGrant g d of
                       Return d' \<Rightarrow> Return ((None, d'), conn)
                     | Panic \<Rightarrow> Panic
                     | Unscripted \<Rightarrow> Unscripted)))
      | Panic \<Rightarrow> Panic
      | Unscripted \<Rightarrow> Unscripted)"

text \<open>The function given to \<^verbatim>\<open>resource.Retry\<close> in \<^verbatim>\<open>resourceAwsKmsGrantCreate\<close>.\<close>

definition createGrantAttempt ::
  "CreateGrantInput \<Rightarrow> CreateGrantOutput option \<times> KMS \<Rightarrow>
     (RetryError option \<times> (CreateGrantOutput option \<times> KMS)) outcome" where
  "createGrantAttempt input s =
     (case CreateGrant input (snd s) of
        Return ((out, err), conn) \<Rightarrow>
          (case err of
             Some e \<Rightarrow>
               (case awsErrCode e of
                  Some code \<Rightarrow>
                    if code = ''DependencyTimeoutException'' \<or>
                       code = ''InternalException'' \<or>
                       code = ''InvalidArnException''
                    then Return (Some (RetryableError (Errorf
                           ''[WARN] Error adding new KMS Grant for key: %s, retrying %s''
                           [StringArg (cgiKeyId input), ErrorArg e])), (out, conn))
                    else Return (Some (NonRetryableError e), (out, conn))
                | None \<Rightarrow> Return (Some (NonRetryableError e), (out, conn)))
           | None \<Rightarrow> Return (None, (out, conn)))
      | Panic \<Rightarrow> Panic
      | Unscripted \<Rightarrow> Unscripted)"

definition constraintsError :: error where
  "constraintsError = Errorf
     ''[ERROR] A grant constraint can't have both encryption_context_equals and encryption_context_subset set''
     []"

text \<open>The request \<^verbatim>\<open>resourceAwsKmsGrantCreate\<close> builds from the state.\<close>

definition createGrantInput :: "ResourceData \<Rightarrow> CreateGrantInput" where
  "createGrantInput d =
     \<lparr>cgiGranteePrincipal = grantee_principal d,
      cgiKeyId = key_id d,
      cgiOperations = operations d,
      cgiName = (if name d \<noteq> [] then Some (name d) else None),
      cgiConstraints =
        (if constraints d \<noteq> [] then expandKmsGrantConstraints (constraints d) else None),
      cgiRetiringPrincipal =
        (if retiring_principal d \<noteq> [] then Some (retiring_principal d) else None),
      cgiGrantTokens =
        (if grant_creation_tokens d \<noteq> [] then Some (grant_creation_tokens d) else None)\<rparr>"

definition resourceAwsKmsGrantCreate ::
  "nat \<Rightarrow> ResourceData \<Rightarrow> KMS \<Rightarrow> ((error option \<times> ResourceData) \<times> KMS) outcome" where
  "resourceAwsKmsGrantCreate retries d conn0 =
     (if constraints d \<noteq> [] \<and> \<not> kmsGrantConstraintsIsValid (constraints d)
      then Return ((Some constraintsError, d), conn0)
      else
        (case Retry retries (createGrantAttempt (createGrantInput d)) (None, conn0) of
           Return (err, s) \<Rightarrow>
             (case err of
                Some e \<Rightarrow> Return ((Some e, d), snd s)
              | None \<Rightarrow>
                  (case fst s of
                     None \<Rightarrow> Panic
                   | Some out \<Rightarrow>
                       (case cgoGrantId out of
                          None \<Rightarrow> Panic
                        | Some grantId \<Rightarrow>
                            resourceAwsKmsGrantRead retries
                              (d\<lparr>Id := grantId, grant_id := grantId,
                                 grant_token :=
                                   (case cgoGrantToken out of Some t \<Rightarrow> t | None \<Rightarrow> [])\<rparr>)
                              (snd s))))
         | Panic \<Rightarrow> Panic
         | Unscripted \<Rightarrow> Unscripted))"

definition resourceAwsKmsGrantDelete ::
  "nat \<Rightarrow> ResourceData \<Rightarrow> KMS \<Rightarrow> ((error option \<times> ResourceData) \<times> KMS) outcome" where
  "resourceAwsKmsGrantDelete retries d conn0 =
     (case RevokeGrant \<lparr>rgiGrantId = grant_id d, rgiKeyId = key_id d\<rparr> conn0 of
        Return (err, conn1) \<Rightarrow>
          (case err of
             Some e \<Rightarrow> Return ((Some e, d), conn1)
           | None \<Rightarrow>
               (case waitForKmsGrantToBeRevoked retries (key_id d) (grant_id d) conn1 of
                  Return (err', conn2) \<Rightarrow>
                    (case err' of
                       Some e \<Rightarrow> Return ((Some e, d), conn2)
                     | None \<Rightarrow> Return ((None, d\<lparr>Id := []\<rparr>), conn2))
                | Panic \<Rightarrow> Panic
                | Unscripted \<Rightarrow> Unscripted))
      | Panic \<Rightarrow> Panic
      | Unscripted \<Rightarrow> Unscripted)"

definition resourceAwsKmsGrantExists ::
  "nat \<Rightarrow> ResourceData \<Rightarrow> KMS \<Rightarrow> ((bool \<times> error option) \<times> KMS) outcome" where
  "resourceAwsKmsGrantExists retries d conn0 =
     (case findKmsGrantByIdWithRetry retries (key_id d) (Id d) conn0 of
        Return ((grant, err), conn) \<Rightarrow>
          (case err of
             Some e \<Rightarrow> Return ((True, Some e), conn)
           | None \<Rightarrow>
               (case grant of
                  Some g \<Rightarrow> Return ((True, None), conn)
                | None \<Rightarrow> Return ((False, None), conn)))
      | Panic \<Rightarrow> Panic
      | Unscripted \<Rightarrow> Unscripted)"

section \<open>Notions used in the statements\<close>

text \<open>The answer of a \<^verbatim>\<open>ListGrants\<close> call that succeeds with the given page.\<close>

definition answer :: "ListGrantsResponse \<Rightarrow> ListGrantsResponse option \<times> error option" where
  "answer page = (Some page, None)"

text \<open>
  Pages that do not hold the grant and are followed by more: each is marked truncated and
  carries the marker of the next page.
\<close>

fun pagesWithout :: "string \<Rightarrow> ListGrantsResponse list \<Rightarrow> bool" where
  "pagesWithout grantId [] = True"
| "pagesWithout grantId (page # pages) =
     (getKmsGrantById (Grants page) grantId = Return None \<and>
      Truncated page = Some True \<and> NextMarker page \<noteq> None \<and>
      pagesWithout grantId pages)"

text \<open>The last page of a listing that does not hold the grant.\<close>

definition lastWithout :: "string \<Rightarrow> ListGrantsResponse \<Rightarrow> bool" where
  "lastWithout grantId page =
     (getKmsGrantById (Grants page) grantId = Return None \<and> Truncated page = Some False)"

text \<open>
  The \<^verbatim>\<open>ListGrants\<close> calls of one search that starts at \<open>marker\<close>, reads the pages \<open>pages\<close>
  and then one more page: each call after the first carries the marker of the page before.
\<close>

definition fetches :: "string \<Rightarrow> string option \<Rightarrow> ListGrantsResponse list \<Rightarrow> call list" where
  "fetches keyId marker pages =
     map (\<lambda>m. ListGrantsCall \<lparr>lgiKeyId = keyId, lgiLimit = 100, lgiMarker = m\<rparr>)
       (marker # map NextMarker pages)"

text \<open>
  The count of the specification: the number of constraint variants, over the whole set,
  whose mapping is non-empty.
\<close>

definition variants :: "constraint \<Rightarrow> StringMap list" where
  "variants c =
     (case encryption_context_equals c of Some v \<Rightarrow> [v] | None \<Rightarrow> []) @
     (case encryption_context_subset c of Some v \<Rightarrow> [v] | None \<Rightarrow> [])"

definition nonEmptyVariants :: "constraint list \<Rightarrow> nat" where
  "nonEmptyVariants cs = length (filter (\<lambda>v. v \<noteq> []) (concat (map variants cs)))"

fun isRevokeGrantCall :: "call \<Rightarrow> bool" where
  "isRevokeGrantCall (RevokeGrantCall input) = True"
| "isRevokeGrantCall _ = False"

text \<open>
  The entries of an optional map, an absent key having none, and the serialization of the
  specification: \<^verbatim>\<open><kind>-<k1>-<v1>-<k2>-<v2>...-\<close> with the keys in ascending order, and
  nothing for a mapping without entries.
\<close>

definition entries :: "StringMap option \<Rightarrow> StringMap" where
  "entries v = (case v of Some m \<Rightarrow> m | None \<Rightarrow> [])"

definition serialized :: "string \<Rightarrow> StringMap \<Rightarrow> string" where
  "serialized kind m =
     (if m = [] then []
      else kind @ ''-'' @ Join (concat (map (\<lambda>(k, v). [k, v]) (sort_key fst m))) ''-'' @ ''-'')"

text \<open>The error of a poll of \<^verbatim>\<open>waitForKmsGrantToBeRevoked\<close> that still finds the grant.\<close>

definition stillExists :: "string \<Rightarrow> error" where
  "stillExists grantId = Errorf
     ''[DEBUG] Grant still exists while expected to be revoked, retyring revocation check: %s''
     [StringArg grantId]"

text \<open>What a search for a grant leaves alone: the other scripts and the other calls.\<close>

fun isListGrantsCall :: "call \<Rightarrow> bool" where
  "isListGrantsCall (ListGrantsCall input) = True"
| "isListGrantsCall _ = False"

definition kept ::
  "KMS \<Rightarrow> (CreateGrantOutput option \<times> error option) list \<times> error option list \<times> call list" where
  "kept conn =
     (createGrantScript conn, revokeGrantScript conn,
      filter (\<lambda>c. \<not> isListGrantsCall c) (calls conn))"

text \<open>
  A page, read from the data alone: the list of grants holds no grant with the searched
  identifier, and every grant in it carries an identifier (a grant without one makes the
  comparison \<^verbatim>\<open>*grant.GrantId == grantIdentifier\<close> panic).
\<close>

definition lacksGrant :: "string \<Rightarrow> GrantListEntry list \<Rightarrow> bool" where
  "lacksGrant grantId grants =
     (None \<notin> set (map GrantId grants) \<and> Some grantId \<notin> set (map GrantId grants))"

fun pagesLack :: "string \<Rightarrow> ListGrantsResponse list \<Rightarrow> bool" where
  "pagesLack grantId [] = True"
| "pagesLack grantId (page # pages) =
     (lacksGrant grantId (Grants page) \<and>
      Truncated page = Some True \<and> NextMarker page \<noteq> None \<and>
      pagesLack grantId pages)"

text \<open>
  The errors of a \<^verbatim>\<open>CreateGrant\<close> call that the claim calls retryable, the answers of calls
  that fail with the given outputs and errors, and the error with which \<^verbatim>\<open>Create\<close> reports
  a retryable failure to \<^verbatim>\<open>resource.Retry\<close>.
\<close>

definition retryableCreateError :: "error \<Rightarrow> bool" where
  "retryableCreateError e =
     (awsErrCode e \<in> {Some ''DependencyTimeoutException'', Some ''InternalException'',
        Some ''InvalidArnException''})"

definition createFailures ::
  "(CreateGrantOutput option \<times> error) list \<Rightarrow> (CreateGrantOutput option \<times> error option) list" where
  "createFailures fails = map (\<lambda>(out, e). (out, Some e)) fails"

definition createRetryWarning :: "string \<Rightarrow> error \<Rightarrow> error" where
  "createRetryWarning keyId e =
     Errorf ''[WARN] Error adding new KMS Grant for key: %s, retrying %s''
       [StringArg keyId, ErrorArg e]"

section \<open>Example data\<close>

text \<open>Concrete grants, pages, connections and states, for the instances of the theorems.\<close>

definition exampleGrant :: "string \<Rightarrow> GrantListEntry" where
  "exampleGrant grantId =
     \<lparr>GrantId = Some grantId,
      GranteePrincipal = Some ''arn:aws:iam::123:role/X'',
      RetiringPrincipal = None,
      Operations = [''Encrypt''],
      Name = Some ''grant'',
      Constraints = None\<rparr>"

definition exampleFirstPage :: ListGrantsResponse where
  "exampleFirstPage =
     \<lparr>Grants = [exampleGrant ''other''], NextMarker = Some ''m1'', Truncated = Some True\<rparr>"

definition exampleLastPage :: ListGrantsResponse where
  "exampleLastPage =
     \<lparr>Grants = [exampleGrant ''abc123''], NextMarker = None, Truncated = Some False\<rparr>"

definition exampleEmptyPage :: ListGrantsResponse where
  "exampleEmptyPage = \<lparr>Grants = [], NextMarker = None, Truncated = Some False\<rparr>"

definition exampleKMS ::
  "(CreateGrantOutput option \<times> error option) list \<Rightarrow> ListGrantsResponse list \<Rightarrow>
     error option list \<Rightarrow> KMS" where
  "exampleKMS creates pages revokes =
     \<lparr>createGrantScript = creates, listGrantsScript = map answer pages,
      revokeGrantScript = revokes, calls = []\<rparr>"

definition exampleState :: ResourceData where
  "exampleState =
     \<lparr>Id = ''abc123'', name = [], key_id = ''key-1'',
      grantee_principal = ''arn:aws:iam::123:role/X'',
      operations = [''Encrypt''],
      constraints =
        [\<lparr>encryption_context_equals = Some [(''ctx'', ''prod'')],
          encryption_context_subset = Some []\<rparr>],
      retiring_principal = [], grant_creation_tokens = [],
      grant_id = ''abc123'', grant_token = ''token''\<rparr>"

definition exampleListCall :: call where
  "exampleListCall = ListGrantsCall \<lparr>lgiKeyId = ''key-1'', lgiLimit = 100, lgiMarker = None\<rparr>"

definition exampleRevokeCall :: call where
  "exampleRevokeCall = RevokeGrantCall \<lparr>rgiGrantId = ''abc123'', rgiKeyId = ''key-1''\<rparr>"

definition exampleHash :: "string \<Rightarrow> int" where
  "exampleHash s = int (length s)"

definition exampleInternalGrant :: GrantListEntry where
  "exampleInternalGrant =
     \<lparr>GrantId = Some ''abc123'',
      GranteePrincipal = Some ''AROAJYCVIVUZIMTXXXXX'',
      RetiringPrincipal = Some ''AROAJYCVIVUZIMTYYYYY'',
      Operations = [''Decrypt''],
      Name = Some ''renamed'',
      Constraints = Some \<lparr>EncryptionContextEquals = Some [(''env'', ''test'')],
                           EncryptionContextSubset = None\<rparr>\<rparr>"

definition exampleInternalPage :: ListGrantsResponse where
  "exampleInternalPage =
     \<lparr>Grants = [exampleInternalGrant], NextMarker = None, Truncated = Some False\<rparr>"

definition exampleMissing :: error where
  "exampleMissing = KmsGrantMissingError ''[DEBUG] Grant abc123 not found for key id: key-1''"

definition exampleMixedPage :: ListGrantsResponse where
  "exampleMixedPage =
     \<lparr>Grants = [exampleGrant ''earlier'', exampleGrant ''abc123'', exampleGrant ''later''],
      NextMarker = Some ''m2'', Truncated = Some True\<rparr>"

definition exampleNewState :: ResourceData where
  "exampleNewState =
     \<lparr>Id = [], name = [], key_id = ''key-1'',
      grantee_principal = ''arn:aws:iam::123:role/X'',
      operations = [''Encrypt''],
      constraints =
        [\<lparr>encryption_context_equals = Some [(''ctx'', ''prod'')],
          encryption_context_subset = Some []\<rparr>],
      retiring_principal = [], grant_creation_tokens = [],
      grant_id = [], grant_token = []\<rparr>"

definition exampleCreateCall :: call where
  "exampleCreateCall = CreateGrantCall (createGrantInput exampleNewState)"

definition exampleInvalidArn :: error where
  "exampleInvalidArn = AwsError ''InvalidArnException'' ''role not found''"

definition exampleUnnamedGrant :: GrantListEntry where
  "exampleUnnamedGrant =
     \<lparr>GrantId = Some ''abc123'',
      GranteePrincipal = Some ''AROAJYCVIVUZIMTXXXXX'',
      RetiringPrincipal = None,
      Operations = [''Encrypt''],
      Name = None,
      Constraints = None\<rparr>"

definition exampleUnnamedPage :: ListGrantsResponse where
  "exampleUnnamedPage =
     \<lparr>Grants = [exampleUnnamedGrant], NextMarker = None, Truncated = Some False\<rparr>"

section \<open>Lemmas\<close>

subsection \<open>The serialization\<close>

lemma appendEntries_present:
  "set mapKeys \<subseteq> fst ` set m \<Longrightarrow>
   appendEntries m mapKeys strList =
     Return (strList @ concat (map (\<lambda>key. [key, the (map_of m key)]) mapKeys))"
proof (induction mapKeys arbitrary: strList)
  case Nil
  then show ?case by simp
next
  case (Cons key mapKeys)
  then obtain v where "map_of m key = Some v"
    by (cases "map_of m key") (auto simp: map_of_eq_None_iff)
  with Cons show ?case by simp
qed

lemma map_insort_key:
  "map f (insort_key f x xs) = insort (f x) (map f xs)"
  by (induction xs) simp_all

lemma map_sort_key: "map f (sort_key f xs) = sort (map f xs)"
  by (induction xs) (simp_all add: map_insort_key)

lemma sort_key_fst_entries:
  assumes "distinct (map fst m)"
  shows "map (\<lambda>key. (key, the (map_of m key))) (sort (map fst m)) = sort_key fst m"
proof -
  have "map (\<lambda>key. (key, the (map_of m key))) (map fst (sort_key fst m)) = sort_key fst m"
  proof (subst map_map, rule map_idI)
    fix e assume "e \<in> set (sort_key fst m)"
    then have "e \<in> set m" by simp
    with assms have "map_of m (fst e) = Some (snd e)"
      by simp
    then show "((\<lambda>key. (key, the (map_of m key))) \<circ> fst) e = e" by simp
  qed
  then show ?thesis by (simp add: map_sort_key)
qed

lemma concat_pairs:
  "concat (map (\<lambda>key. [key, g key]) keys) = concat (map (\<lambda>(k, v). [k, v]) (map (\<lambda>key. (key, g key)) keys))"
  by (induction keys) simp_all

lemma sortedConcatStringMap_sorted:
  assumes "distinct (map fst m)"
  shows "sortedConcatStringMap m sep =
    Return (Join (concat (map (\<lambda>(k, v). [k, v]) (sort_key fst m))) sep)"
proof -
  have "appendEntries m (sortStringMapKeys m) [] =
      Return (concat (map (\<lambda>key. [key, the (map_of m key)]) (sort (map fst m))))"
    using appendEntries_present [of "sortStringMapKeys m" m "[]"]
    by (simp add: sortStringMapKeys_def)
  then show ?thesis
    using sort_key_fst_entries [OF assms]
    by (simp add: sortedConcatStringMap_def sortStringMapKeys_def concat_pairs [where g = "\<lambda>key. the (map_of m key)"])
qed

lemma writeContext_serialized:
  "distinct (map fst (entries v)) \<Longrightarrow>
   writeContext kind v buf = Return (buf @ serialized kind (entries v))"
  by (cases v) (auto simp: writeContext_def entries_def serialized_def sortedConcatStringMap_sorted)

lemma constraintsBuffer_serialized:
  "distinct (map fst (entries (encryption_context_equals c))) \<Longrightarrow>
   distinct (map fst (entries (encryption_context_subset c))) \<Longrightarrow>
   constraintsBuffer c =
     Return (serialized ''encryption_context_equals'' (entries (encryption_context_equals c)) @
             serialized ''encryption_context_subset'' (entries (encryption_context_subset c)))"
  by (simp add: constraintsBuffer_def writeContext_serialized)

lemma sort_key_fst_same:
  assumes "distinct (map fst m)" "distinct (map fst m')" "set m = set m'"
  shows "sort_key fst m = sort_key fst m'"
proof -
  have keys: "sort (map fst m) = sort (map fst m')"
    using assms by (intro sorted_distinct_set_unique) simp_all
  have "map_of m = map_of m'"
    using assms by (simp add: map_of_inject_set)
  then show ?thesis
    using sort_key_fst_entries [OF assms(1)] sort_key_fst_entries [OF assms(2)] keys by simp
qed

lemma serialized_same:
  assumes "distinct (map fst m)" "distinct (map fst m')" "set m = set m'"
  shows "serialized kind m = serialized kind m'"
proof -
  have "m = [] \<longleftrightarrow> m' = []" using assms(3) by (metis set_empty)
  then show ?thesis
    using sort_key_fst_same [OF assms] by (simp add: serialized_def)
qed

lemma countConstraints_nonEmptyVariants:
  "countConstraints cs k = k + nonEmptyVariants cs"
  by (induction cs arbitrary: k)
    (auto simp: nonEmptyVariants_def variants_def Let_def split: option.splits)

lemma kmsGrantConstraintsIsValid_iff:
  "kmsGrantConstraintsIsValid cs \<longleftrightarrow> nonEmptyVariants cs \<le> 1"
  by (auto simp: kmsGrantConstraintsIsValid_def countConstraints_nonEmptyVariants)

subsection \<open>One search\<close>

lemma Retry_listGrantsAttempt_answer:
  "listGrantsScript conn = answer page # rest \<Longrightarrow>
   Retry n (listGrantsAttempt input) (x, conn) =
     Return (None, (Some page,
       conn\<lparr>listGrantsScript := rest, calls := calls conn @ [ListGrantsCall input]\<rparr>))"
  by (cases n) (simp_all add: listGrantsAttempt_def ListGrants_def answer_def)

lemma findKmsGrantById_found_last:
  "pagesWithout grantId pages \<Longrightarrow>
   getKmsGrantById (Grants page) grantId = Return (Some grant) \<Longrightarrow>
   listGrantsScript conn = map answer (pages @ [page]) @ rest \<Longrightarrow>
   findKmsGrantById n keyId grantId marker conn =
     Return ((Some grant, None),
       conn\<lparr>listGrantsScript := rest, calls := calls conn @ fetches keyId marker pages\<rparr>)"
proof (induction pages arbitrary: marker conn)
  case Nil
  then show ?case
    by (subst findKmsGrantById.simps)
      (simp add: Retry_listGrantsAttempt_answer fetches_def)
next
  case (Cons p pages)
  from Cons.prems(1) obtain m where p: "getKmsGrantById (Grants p) grantId = Return None"
    "Truncated p = Some True" "NextMarker p = Some m" and rest: "pagesWithout grantId pages"
    by auto
  let ?conn = "conn\<lparr>listGrantsScript := map answer (pages @ [page]) @ rest,
    calls := calls conn @ [ListGrantsCall \<lparr>lgiKeyId = keyId, lgiLimit = 100, lgiMarker = marker\<rparr>]\<rparr>"
  have step: "findKmsGrantById n keyId grantId marker conn =
      findKmsGrantById n keyId grantId (Some m) ?conn"
    using Cons.prems(3) p
    by (subst findKmsGrantById.simps)
      (simp add: Retry_listGrantsAttempt_answer [where rest = "map answer (pages @ [page]) @ rest"])
  have "findKmsGrantById n keyId grantId (Some m) ?conn =
      Return ((Some grant, None),
        ?conn\<lparr>listGrantsScript := rest, calls := calls ?conn @ fetches keyId (Some m) pages\<rparr>)"
    by (rule Cons.IH [OF rest Cons.prems(2)]) simp
  with step p show ?case by (simp add: fetches_def)
qed

lemma findKmsGrantById_missing:
  "pagesWithout grantId pages \<Longrightarrow> lastWithout grantId page \<Longrightarrow>
   listGrantsScript conn = map answer (pages @ [page]) @ rest \<Longrightarrow>
   findKmsGrantById n keyId grantId marker conn =
     Return ((None, Some (KmsGrantMissingError (missingMessage grantId keyId))),
       conn\<lparr>listGrantsScript := rest, calls := calls conn @ fetches keyId marker pages\<rparr>)"
proof (induction pages arbitrary: marker conn)
  case Nil
  then show ?case
    by (subst findKmsGrantById.simps)
      (simp add: Retry_listGrantsAttempt_answer fetches_def lastWithout_def
        NewKmsGrantMissingError_def)
next
  case (Cons p pages)
  from Cons.prems(1) obtain m where p: "getKmsGrantById (Grants p) grantId = Return None"
    "Truncated p = Some True" "NextMarker p = Some m" and rest: "pagesWithout grantId pages"
    by auto
  let ?conn = "conn\<lparr>listGrantsScript := map answer (pages @ [page]) @ rest,
    calls := calls conn @ [ListGrantsCall \<lparr>lgiKeyId = keyId, lgiLimit = 100, lgiMarker = marker\<rparr>]\<rparr>"
  have step: "findKmsGrantById n keyId grantId marker conn =
      findKmsGrantById n keyId grantId (Some m) ?conn"
    using Cons.prems(3) p
    by (subst findKmsGrantById.simps)
      (simp add: Retry_listGrantsAttempt_answer [where rest = "map answer (pages @ [page]) @ rest"])
  have "findKmsGrantById n keyId grantId (Some m) ?conn =
      Return ((None, Some (KmsGrantMissingError (missingMessage grantId keyId))),
        ?conn\<lparr>listGrantsScript := rest, calls := calls ?conn @ fetches keyId (Some m) pages\<rparr>)"
    by (rule Cons.IH [OF rest Cons.prems(2)]) simp
  with step p show ?case by (simp add: fetches_def)
qed

lemma getKmsGrantById_Some:
  "getKmsGrantById grants grantId = Return (Some grant) \<Longrightarrow> GrantId grant = Some grantId"
  by (induction grants) (auto split: option.splits if_splits)

lemma Retry_preserves:
  assumes "\<And>s r s'. f s = Return (r, s') \<Longrightarrow> P s' = P s"
  shows "Retry n f s = Return (e, s') \<Longrightarrow> P s' = P s"
proof (induction n arbitrary: s)
  case 0
  then show ?case
    using assms by (auto split: outcome.splits option.splits RetryError.splits)
next
  case (Suc n)
  then show ?case
    using assms by (auto split: outcome.splits option.splits RetryError.splits)
qed

lemma listGrantsAttempt_kept:
  "listGrantsAttempt input s = Return (r, s') \<Longrightarrow> kept (snd s') = kept (snd s)"
  by (auto simp: listGrantsAttempt_def ListGrants_def kept_def
      split: list.splits option.splits if_splits)

lemma findKmsGrantById_kept:
  "findKmsGrantById n keyId grantId marker conn = Return (r, conn') \<Longrightarrow> kept conn' = kept conn"
proof (induction n keyId grantId marker conn rule: findKmsGrantById.induct)
  case (1 retries keyId grantId marker conn)
  let ?input = "\<lparr>lgiKeyId = keyId, lgiLimit = 100, lgiMarker = marker\<rparr>"
  from "1.prems" obtain err out conn1 where
    retry: "Retry retries (listGrantsAttempt ?input) (None, conn) = Return (err, (Some out, conn1))"
    by (subst (asm) findKmsGrantById.simps) (auto split: outcome.splits option.splits)
  have k1: "kept conn1 = kept conn"
    using Retry_preserves [where P = "\<lambda>s. kept (snd s)", OF listGrantsAttempt_kept retry] by simp
  show ?case
  proof (cases "getKmsGrantById (Grants out) grantId = Return None \<and> Truncated out = Some True")
    case True
    then obtain m where m: "NextMarker out = Some m"
      and rec: "findKmsGrantById retries keyId grantId (Some m) conn1 = Return (r, conn')"
      using "1.prems" retry
      by (subst (asm) findKmsGrantById.simps) (auto split: option.splits)
    have "kept conn' = kept conn1"
      using "1.IH" [OF retry [symmetric, THEN sym] refl] True m rec by simp
    with k1 show ?thesis by simp
  next
    case False
    then have "conn' = conn1"
      using "1.prems" retry
      by (subst (asm) findKmsGrantById.simps)
        (auto split: option.splits outcome.splits bool.splits)
    with k1 show ?thesis by simp
  qed
qed

lemma findKmsGrantById_result:
  "findKmsGrantById n keyId grantId marker conn = Return ((grant, err), conn') \<Longrightarrow>
   (grant = None \<and> err = Some (KmsGrantMissingError (missingMessage grantId keyId))) \<or>
   (err = None \<and> (\<exists>g. grant = Some g \<and> GrantId g = Some grantId))"
proof (induction n keyId grantId marker conn rule: findKmsGrantById.induct)
  case (1 retries keyId grantId marker conn)
  let ?input = "\<lparr>lgiKeyId = keyId, lgiLimit = 100, lgiMarker = marker\<rparr>"
  from "1.prems" obtain e out conn1 where
    retry: "Retry retries (listGrantsAttempt ?input) (None, conn) = Return (e, (Some out, conn1))"
    by (subst (asm) findKmsGrantById.simps) (auto split: outcome.splits option.splits)
  show ?case
  proof (cases "getKmsGrantById (Grants out) grantId = Return None \<and> Truncated out = Some True")
    case True
    then obtain m where m: "NextMarker out = Some m"
      and rec: "findKmsGrantById retries keyId grantId (Some m) conn1 = Return ((grant, err), conn')"
      using "1.prems" retry
      by (subst (asm) findKmsGrantById.simps) (auto split: option.splits)
    show ?thesis
      using "1.IH" [OF retry [symmetric, THEN sym] refl] True m rec by simp
  next
    case False
    then show ?thesis
      using "1.prems" retry
      by (subst (asm) findKmsGrantById.simps)
        (auto simp: NewKmsGrantMissingError_def dest: getKmsGrantById_Some
          split: option.splits outcome.splits bool.splits)
  qed
qed

subsection \<open>Repeated searches\<close>

lemma findAttempt_missing:
  "pagesWithout grantId pages \<Longrightarrow> lastWithout grantId page \<Longrightarrow>
   listGrantsScript conn = map answer (pages @ [page]) @ rest \<Longrightarrow>
   findAttempt r keyId grantId (x, conn) =
     Return (Some (RetryableError (KmsGrantMissingError (missingMessage grantId keyId))),
       (None, conn\<lparr>listGrantsScript := rest, calls := calls conn @ fetches keyId None pages\<rparr>))"
  by (simp add: findAttempt_def findKmsGrantById_missing)

lemma findAttempt_found:
  "pagesWithout grantId pages \<Longrightarrow>
   getKmsGrantById (Grants page) grantId = Return (Some grant) \<Longrightarrow>
   listGrantsScript conn = map answer (pages @ [page]) @ rest \<Longrightarrow>
   findAttempt r keyId grantId (x, conn) =
     Return (None,
       (Some grant, conn\<lparr>listGrantsScript := rest, calls := calls conn @ fetches keyId None pages\<rparr>))"
  by (simp add: findAttempt_def findKmsGrantById_found_last)

lemma Retry_findAttempt_found_after:
  "pagesWithout grantId pages \<Longrightarrow> lastWithout grantId page \<Longrightarrow>
   pagesWithout grantId pages' \<Longrightarrow>
   getKmsGrantById (Grants page') grantId = Return (Some grant) \<Longrightarrow>
   k \<le> n \<Longrightarrow>
   listGrantsScript conn =
     concat (replicate k (map answer (pages @ [page]))) @ map answer (pages' @ [page']) @ rest \<Longrightarrow>
   Retry n (findAttempt r keyId grantId) (x, conn) =
     Return (None, (Some grant,
       conn\<lparr>listGrantsScript := rest,
            calls := calls conn @ concat (replicate k (fetches keyId None pages)) @
              fetches keyId None pages'\<rparr>))"
proof (induction k arbitrary: n x conn)
  case 0
  then have "findAttempt r keyId grantId (x, conn) =
     Return (None,
       (Some grant, conn\<lparr>listGrantsScript := rest, calls := calls conn @ fetches keyId None pages'\<rparr>))"
    by (intro findAttempt_found) simp_all
  then show ?case by (cases n) simp_all
next
  case (Suc k)
  then obtain m where n: "n = Suc m" and km: "k \<le> m" by (cases n) auto
  let ?rest = "concat (replicate k (map answer (pages @ [page]))) @ map answer (pages' @ [page']) @ rest"
  let ?conn = "conn\<lparr>listGrantsScript := ?rest, calls := calls conn @ fetches keyId None pages\<rparr>"
  have "findAttempt r keyId grantId (x, conn) =
     Return (Some (RetryableError (KmsGrantMissingError (missingMessage grantId keyId))),
       (None, ?conn))"
    using Suc.prems by (intro findAttempt_missing) simp_all
  then have "Retry n (findAttempt r keyId grantId) (x, conn) =
      Retry m (findAttempt r keyId grantId) (None, ?conn)"
    using n by simp
  also have "\<dots> = Return (None, (Some grant,
       ?conn\<lparr>listGrantsScript := rest,
            calls := calls ?conn @ concat (replicate k (fetches keyId None pages)) @
              fetches keyId None pages'\<rparr>))"
    using Suc.prems km by (intro Suc.IH) simp_all
  finally show ?case by simp
qed

lemma Retry_findAttempt_missing_throughout:
  "pagesWithout grantId pages \<Longrightarrow> lastWithout grantId page \<Longrightarrow>
   listGrantsScript conn = concat (replicate (Suc n) (map answer (pages @ [page]))) @ rest \<Longrightarrow>
   Retry n (findAttempt r keyId grantId) (x, conn) =
     Return (Some (DeadlineExceededError (KmsGrantMissingError (missingMessage grantId keyId))),
       (None, conn\<lparr>listGrantsScript := rest,
            calls := calls conn @ concat (replicate (Suc n) (fetches keyId None pages))\<rparr>))"
proof (induction n arbitrary: x conn)
  case 0
  then have "findAttempt r keyId grantId (x, conn) =
     Return (Some (RetryableError (KmsGrantMissingError (missingMessage grantId keyId))),
       (None, conn\<lparr>listGrantsScript := rest, calls := calls conn @ fetches keyId None pages\<rparr>))"
    by (intro findAttempt_missing) simp_all
  then show ?case by simp
next
  case (Suc n)
  let ?rest = "concat (replicate (Suc n) (map answer (pages @ [page]))) @ rest"
  let ?conn = "conn\<lparr>listGrantsScript := ?rest, calls := calls conn @ fetches keyId None pages\<rparr>"
  have "findAttempt r keyId grantId (x, conn) =
     Return (Some (RetryableError (KmsGrantMissingError (missingMessage grantId keyId))),
       (None, ?conn))"
    using Suc.prems by (intro findAttempt_missing) simp_all
  then have "Retry (Suc n) (findAttempt r keyId grantId) (x, conn) =
      Retry n (findAttempt r keyId grantId) (None, ?conn)"
    by simp
  also have "\<dots> = Return (Some (DeadlineExceededError (KmsGrantMissingError (missingMessage grantId keyId))),
       (None, ?conn\<lparr>listGrantsScript := rest,
            calls := calls ?conn @ concat (replicate (Suc n) (fetches keyId None pages))\<rparr>))"
    using Suc.prems by (intro Suc.IH) simp_all
  finally show ?case by simp
qed

lemma revokedAttempt_missing:
  "pagesWithout grantId pages \<Longrightarrow> lastWithout grantId page \<Longrightarrow>
   listGrantsScript conn = map answer (pages @ [page]) @ rest \<Longrightarrow>
   revokedAttempt r keyId grantId conn =
     Return (None, conn\<lparr>listGrantsScript := rest, calls := calls conn @ fetches keyId None pages\<rparr>)"
  by (simp add: revokedAttempt_def findKmsGrantById_missing)

lemma revokedAttempt_found:
  "pagesWithout grantId pages \<Longrightarrow>
   getKmsGrantById (Grants page) grantId = Return (Some grant) \<Longrightarrow>
   listGrantsScript conn = map answer (pages @ [page]) @ rest \<Longrightarrow>
   revokedAttempt r keyId grantId conn =
     Return (Some (RetryableError (stillExists grantId)),
       conn\<lparr>listGrantsScript := rest, calls := calls conn @ fetches keyId None pages\<rparr>)"
  by (simp add: revokedAttempt_def findKmsGrantById_found_last stillExists_def
      getKmsGrantById_Some)

lemma Retry_revokedAttempt_gone_after:
  "pagesWithout grantId pages \<Longrightarrow> lastWithout grantId page \<Longrightarrow>
   pagesWithout grantId pages' \<Longrightarrow>
   getKmsGrantById (Grants page') grantId = Return (Some grant) \<Longrightarrow>
   k \<le> n \<Longrightarrow>
   listGrantsScript conn =
     concat (replicate k (map answer (pages' @ [page']))) @ map answer (pages @ [page]) @ rest \<Longrightarrow>
   Retry n (revokedAttempt r keyId grantId) conn =
     Return (None,
       conn\<lparr>listGrantsScript := rest,
            calls := calls conn @ concat (replicate k (fetches keyId None pages')) @
              fetches keyId None pages\<rparr>)"
proof (induction k arbitrary: n conn)
  case 0
  then have "revokedAttempt r keyId grantId conn =
     Return (None, conn\<lparr>listGrantsScript := rest, calls := calls conn @ fetches keyId None pages\<rparr>)"
    by (intro revokedAttempt_missing) simp_all
  then show ?case by (cases n) simp_all
next
  case (Suc k)
  then obtain m where n: "n = Suc m" and km: "k \<le> m" by (cases n) auto
  let ?rest = "concat (replicate k (map answer (pages' @ [page']))) @ map answer (pages @ [page]) @ rest"
  let ?conn = "conn\<lparr>listGrantsScript := ?rest, calls := calls conn @ fetches keyId None pages'\<rparr>"
  have "revokedAttempt r keyId grantId conn =
     Return (Some (RetryableError (stillExists grantId)), ?conn)"
    using Suc.prems by (intro revokedAttempt_found) simp_all
  then have "Retry n (revokedAttempt r keyId grantId) conn =
      Retry m (revokedAttempt r keyId grantId) ?conn"
    using n by simp
  also have "\<dots> = Return (None,
       ?conn\<lparr>listGrantsScript := rest,
            calls := calls ?conn @ concat (replicate k (fetches keyId None pages')) @
              fetches keyId None pages\<rparr>)"
    using Suc.prems km by (intro Suc.IH) simp_all
  finally show ?case by simp
qed

lemma Retry_revokedAttempt_found_throughout:
  "pagesWithout grantId pages \<Longrightarrow>
   getKmsGrantById (Grants page) grantId = Return (Some grant) \<Longrightarrow>
   listGrantsScript conn = concat (replicate (Suc n) (map answer (pages @ [page]))) @ rest \<Longrightarrow>
   Retry n (revokedAttempt r keyId grantId) conn =
     Return (Some (DeadlineExceededError (stillExists grantId)),
       conn\<lparr>listGrantsScript := rest,
            calls := calls conn @ concat (replicate (Suc n) (fetches keyId None pages))\<rparr>)"
proof (induction n arbitrary: conn)
  case 0
  then have "revokedAttempt r keyId grantId conn =
     Return (Some (RetryableError (stillExists grantId)),
       conn\<lparr>listGrantsScript := rest, calls := calls conn @ fetches keyId None pages\<rparr>)"
    by (intro revokedAttempt_found) simp_all
  then show ?case by simp
next
  case (Suc n)
  let ?rest = "concat (replicate (Suc n) (map answer (pages @ [page]))) @ rest"
  let ?conn = "conn\<lparr>listGrantsScript := ?rest, calls := calls conn @ fetches keyId None pages\<rparr>"
  have "revokedAttempt r keyId grantId conn =
     Return (Some (RetryableError (stillExists grantId)), ?conn)"
    using Suc.prems by (intro revokedAttempt_found) simp_all
  then have "Retry (Suc n) (revokedAttempt r keyId grantId) conn =
      Retry n (revokedAttempt r keyId grantId) ?conn"
    by simp
  also have "\<dots> = Return (Some (DeadlineExceededError (stillExists grantId)),
       ?conn\<lparr>listGrantsScript := rest,
            calls := calls ?conn @ concat (replicate (Suc n) (fetches keyId None pages))\<rparr>)"
    using Suc.prems by (intro Suc.IH) simp_all
  finally show ?case by simp
qed

lemma revokedAttempt_success:
  assumes "revokedAttempt r keyId grantId conn = Return (None, conn')"
  shows "findKmsGrantById r keyId grantId None conn =
     Return ((None, Some (KmsGrantMissingError (missingMessage grantId keyId))), conn')"
proof -
  from assms obtain grant err where
    find: "findKmsGrantById r keyId grantId None conn = Return ((grant, err), conn')"
    by (auto simp: revokedAttempt_def split: outcome.splits option.splits if_splits)
  from findKmsGrantById_result [OF find] assms find show ?thesis
    by (auto simp: revokedAttempt_def)
qed

lemma Retry_revokedAttempt_success:
  "Retry n (revokedAttempt r keyId grantId) conn = Return (None, conn') \<Longrightarrow>
   \<exists>conn0. findKmsGrantById r keyId grantId None conn0 =
     Return ((None, Some (KmsGrantMissingError (missingMessage grantId keyId))), conn')"
proof (induction n arbitrary: conn)
  case 0
  then have "revokedAttempt r keyId grantId conn = Return (None, conn')"
    by (auto split: outcome.splits option.splits RetryError.splits)
  then show ?case using revokedAttempt_success by blast
next
  case (Suc n)
  show ?case
  proof (cases "revokedAttempt r keyId grantId conn = Return (None, conn')")
    case True
    then show ?thesis using revokedAttempt_success by blast
  next
    case False
    with Suc.prems have
      "\<exists>conn1. Retry n (revokedAttempt r keyId grantId) conn1 = Return (None, conn')"
      by (auto split: outcome.splits option.splits RetryError.splits)
    then show ?thesis using Suc.IH by blast
  qed
qed

lemma revokedAttempt_kept:
  "revokedAttempt r keyId grantId conn = Return (x, conn') \<Longrightarrow> kept conn' = kept conn"
  by (auto simp: revokedAttempt_def dest: findKmsGrantById_kept
      split: outcome.splits option.splits if_splits)

lemma waitForKmsGrantToBeRevoked_kept:
  "waitForKmsGrantToBeRevoked n keyId grantId conn = Return (e, conn') \<Longrightarrow> kept conn' = kept conn"
  unfolding waitForKmsGrantToBeRevoked_def
  using Retry_preserves [where P = kept and f = "revokedAttempt n keyId grantId"] revokedAttempt_kept
  by blast

lemma findAttempt_kept:
  "findAttempt r keyId grantId s = Return (x, s') \<Longrightarrow> kept (snd s') = kept (snd s)"
  using findKmsGrantById_kept [of r keyId grantId None "snd s"]
  by (auto simp: findAttempt_def split: outcome.splits option.splits if_splits)

lemma findKmsGrantByIdWithRetry_kept:
  "findKmsGrantByIdWithRetry n keyId grantId conn = Return (x, conn') \<Longrightarrow> kept conn' = kept conn"
proof -
  assume a: "findKmsGrantByIdWithRetry n keyId grantId conn = Return (x, conn')"
  then obtain err s where r: "Retry n (findAttempt n keyId grantId) (None, conn) = Return (err, s)"
    and s: "snd s = conn'"
    by (auto simp: findKmsGrantByIdWithRetry_def split: outcome.splits)
  from Retry_preserves [where P = "\<lambda>s. kept (snd s)", OF findAttempt_kept r] s
  show ?thesis by simp
qed

subsection \<open>The operations of the resource\<close>

lemma kmsGrantConstraintsIsValid_Nil: "kmsGrantConstraintsIsValid []"
  by (simp add: kmsGrantConstraintsIsValid_def)

lemma Retry_createGrantAttempt_shorter:
  "Retry n (createGrantAttempt input) s = Return (err, s') \<Longrightarrow>
   length (createGrantScript (snd s')) < length (createGrantScript (snd s))"
proof (induction n arbitrary: s)
  case 0
  then show ?case
    by (auto simp: createGrantAttempt_def CreateGrant_def
        split: list.splits option.splits if_splits)
next
  case (Suc n)
  show ?case
  proof (cases "\<exists>e s1. createGrantAttempt input s = Return (Some (RetryableError e), s1)")
    case True
    then obtain e s1 where a: "createGrantAttempt input s = Return (Some (RetryableError e), s1)"
      by blast
    with Suc.prems have "Retry n (createGrantAttempt input) s1 = Return (err, s')" by simp
    from Suc.IH [OF this] have "length (createGrantScript (snd s')) < length (createGrantScript (snd s1))" .
    moreover from a have "length (createGrantScript (snd s1)) < length (createGrantScript (snd s))"
      by (auto simp: createGrantAttempt_def CreateGrant_def
          split: list.splits option.splits if_splits)
    ultimately show ?thesis by simp
  next
    case False
    with Suc.prems show ?thesis
      by (auto simp: createGrantAttempt_def CreateGrant_def
          split: list.splits option.splits if_splits)
  qed
qed

lemma resourceAwsKmsGrantRead_kept:
  "resourceAwsKmsGrantRead n d conn = Return (r, conn') \<Longrightarrow> kept conn' = kept conn"
  using findKmsGrantByIdWithRetry_kept [of n "key_id d" "Id d" conn]
  by (auto simp: resourceAwsKmsGrantRead_def split: outcome.splits option.splits)

lemma resourceAwsKmsGrantCreate_calls:
  assumes "kmsGrantConstraintsIsValid (constraints d)"
    and "resourceAwsKmsGrantCreate n d conn = Return (r, conn')"
  shows "length (createGrantScript conn') < length (createGrantScript conn)"
proof -
  from assms obtain err s where
    retry: "Retry n (createGrantAttempt (createGrantInput d)) (None, conn) = Return (err, s)"
    by (auto simp: resourceAwsKmsGrantCreate_def split: outcome.splits)
  from Retry_createGrantAttempt_shorter [OF retry]
  have shorter: "length (createGrantScript (snd s)) < length (createGrantScript conn)" by simp
  show ?thesis
  proof (cases err)
    case (Some e)
    with assms retry have "conn' = snd s"
      by (simp add: resourceAwsKmsGrantCreate_def)
    with shorter show ?thesis by simp
  next
    case None
    with assms retry obtain d1 where
      "resourceAwsKmsGrantRead n d1 (snd s) = Return (r, conn')"
      by (auto simp: resourceAwsKmsGrantCreate_def split: option.splits)
    from resourceAwsKmsGrantRead_kept [OF this] have "createGrantScript conn' = createGrantScript (snd s)"
      by (simp add: kept_def)
    with shorter show ?thesis by simp
  qed
qed

lemma resourceAwsKmsGrantCreate_invalid_iff:
  "resourceAwsKmsGrantCreate n d conn = Return ((Some constraintsError, d), conn) \<longleftrightarrow>
   \<not> kmsGrantConstraintsIsValid (constraints d)"
proof (cases "kmsGrantConstraintsIsValid (constraints d)")
  case True
  then show ?thesis
    using resourceAwsKmsGrantCreate_calls [of d n conn "(Some constraintsError, d)" conn]
    by auto
next
  case False
  then have "constraints d \<noteq> []"
    using kmsGrantConstraintsIsValid_Nil by auto
  with False show ?thesis
    by (simp add: resourceAwsKmsGrantCreate_def)
qed

lemma kmsGrantConstraintsIsValid_single:
  "kmsGrantConstraintsIsValid
     [\<lparr>encryption_context_equals = Some eq, encryption_context_subset = Some sub\<rparr>] \<longleftrightarrow>
   eq = [] \<or> sub = []"
  by (auto simp: kmsGrantConstraintsIsValid_def)

lemma createGrantAttempt_failed:
  "createGrantScript conn = (out, Some e) # rest \<Longrightarrow>
   createGrantAttempt input (x, conn) =
     Return (Some
       (if awsErrCode e \<in> {Some ''DependencyTimeoutException'', Some ''InternalException'',
              Some ''InvalidArnException''}
        then RetryableError (Errorf ''[WARN] Error adding new KMS Grant for key: %s, retrying %s''
               [StringArg (cgiKeyId input), ErrorArg e])
        else NonRetryableError e),
       (out, conn\<lparr>createGrantScript := rest, calls := calls conn @ [CreateGrantCall input]\<rparr>))"
  by (auto simp: createGrantAttempt_def CreateGrant_def split: option.splits)

lemma Retry_nonretryable:
  "f s = Return (Some (NonRetryableError e), s') \<Longrightarrow> Retry n f s = Return (Some e, s')"
  by (cases n) simp_all

lemma resourceAwsKmsGrantCreate_fatal:
  assumes "createGrantScript conn = (out, Some e) # rest"
    and "awsErrCode e \<notin> {Some ''DependencyTimeoutException'', Some ''InternalException'',
              Some ''InvalidArnException''}"
    and "kmsGrantConstraintsIsValid (constraints d)"
  shows "resourceAwsKmsGrantCreate n d conn =
     Return ((Some e, d),
       conn\<lparr>createGrantScript := rest,
            calls := calls conn @ [CreateGrantCall (createGrantInput d)]\<rparr>)"
proof -
  have "createGrantAttempt (createGrantInput d) (None, conn) =
      Return (Some (NonRetryableError e),
        (out, conn\<lparr>createGrantScript := rest,
            calls := calls conn @ [CreateGrantCall (createGrantInput d)]\<rparr>))"
    using createGrantAttempt_failed [OF assms(1)] assms(2) by simp
  then have "Retry n (createGrantAttempt (createGrantInput d)) (None, conn) =
      Return (Some e,
        (out, conn\<lparr>createGrantScript := rest,
            calls := calls conn @ [CreateGrantCall (createGrantInput d)]\<rparr>))"
    by (rule Retry_nonretryable [where f = "createGrantAttempt (createGrantInput d)"])
  with assms(3) show ?thesis
    by (simp add: resourceAwsKmsGrantCreate_def)
qed

lemma findKmsGrantByIdWithRetry_found_after:
  "pagesWithout grantId pages \<Longrightarrow> lastWithout grantId page \<Longrightarrow>
   pagesWithout grantId pages' \<Longrightarrow>
   getKmsGrantById (Grants page') grantId = Return (Some grant) \<Longrightarrow>
   k \<le> n \<Longrightarrow>
   listGrantsScript conn =
     concat (replicate k (map answer (pages @ [page]))) @ map answer (pages' @ [page']) @ rest \<Longrightarrow>
   findKmsGrantByIdWithRetry n keyId grantId conn =
     Return ((Some grant, None),
       conn\<lparr>listGrantsScript := rest,
            calls := calls conn @ concat (replicate k (fetches keyId None pages)) @
              fetches keyId None pages'\<rparr>)"
  by (simp add: findKmsGrantByIdWithRetry_def Retry_findAttempt_found_after)

lemma findKmsGrantByIdWithRetry_missing_throughout:
  "pagesWithout grantId pages \<Longrightarrow> lastWithout grantId page \<Longrightarrow>
   listGrantsScript conn = concat (replicate (Suc n) (map answer (pages @ [page]))) @ rest \<Longrightarrow>
   findKmsGrantByIdWithRetry n keyId grantId conn =
     Return ((None,
         Some (DeadlineExceededError (KmsGrantMissingError (missingMessage grantId keyId)))),
       conn\<lparr>listGrantsScript := rest,
            calls := calls conn @ concat (replicate (Suc n) (fetches keyId None pages))\<rparr>)"
  by (simp add: findKmsGrantByIdWithRetry_def Retry_findAttempt_missing_throughout)

lemma filter_isRevokeGrantCall:
  "filter isRevokeGrantCall (filter (\<lambda>c. \<not> isListGrantsCall c) cs) = filter isRevokeGrantCall cs"
proof -
  have "\<And>c. (\<not> isListGrantsCall c \<and> isRevokeGrantCall c) = isRevokeGrantCall c"
    by (case_tac c) simp_all
  then show ?thesis by simp
qed

lemma kept_revokes:
  assumes "kept conn' = kept conn"
  shows "filter isRevokeGrantCall (calls conn') = filter isRevokeGrantCall (calls conn)"
proof -
  from assms have "filter (\<lambda>c. \<not> isListGrantsCall c) (calls conn') =
      filter (\<lambda>c. \<not> isListGrantsCall c) (calls conn)"
    by (simp add: kept_def)
  then have "filter isRevokeGrantCall (filter (\<lambda>c. \<not> isListGrantsCall c) (calls conn')) =
      filter isRevokeGrantCall (filter (\<lambda>c. \<not> isListGrantsCall c) (calls conn))"
    by simp
  then show ?thesis by (simp only: filter_isRevokeGrantCall)
qed

lemma resourceAwsKmsGrantDelete_revoke_fails:
  "revokeGrantScript conn = Some e # revokes \<Longrightarrow>
   resourceAwsKmsGrantDelete n d conn =
     Return ((Some e, d),
       conn\<lparr>revokeGrantScript := revokes,
            calls := calls conn @
              [RevokeGrantCall \<lparr>rgiGrantId = grant_id d, rgiKeyId = key_id d\<rparr>]\<rparr>)"
  by (simp add: resourceAwsKmsGrantDelete_def RevokeGrant_def)

lemma resourceAwsKmsGrantDelete_returns:
  assumes "resourceAwsKmsGrantDelete n d conn = Return ((err, d'), conn')"
  shows "filter isRevokeGrantCall (calls conn') =
           filter isRevokeGrantCall (calls conn) @
             [RevokeGrantCall \<lparr>rgiGrantId = grant_id d, rgiKeyId = key_id d\<rparr>]"
    and "err \<noteq> None \<Longrightarrow> d' = d"
    and "err = None \<Longrightarrow> d' = d\<lparr>Id := []\<rparr> \<and>
           (\<exists>conn0. findKmsGrantById n (key_id d) (grant_id d) None conn0 =
              Return ((None,
                Some (KmsGrantMissingError (missingMessage (grant_id d) (key_id d)))), conn'))"
proof -
  let ?call = "RevokeGrantCall \<lparr>rgiGrantId = grant_id d, rgiKeyId = key_id d\<rparr>"
  from assms obtain answer revokes where script: "revokeGrantScript conn = answer # revokes"
    by (cases "revokeGrantScript conn")
      (auto simp: resourceAwsKmsGrantDelete_def RevokeGrant_def)
  let ?conn1 = "conn\<lparr>revokeGrantScript := revokes, calls := calls conn @ [?call]\<rparr>"
  have revoke: "RevokeGrant \<lparr>rgiGrantId = grant_id d, rgiKeyId = key_id d\<rparr> conn =
      Return (answer, ?conn1)"
    using script by (simp add: RevokeGrant_def)
  have "filter isRevokeGrantCall (calls conn') =
           filter isRevokeGrantCall (calls conn) @ [?call] \<and>
        (err \<noteq> None \<longrightarrow> d' = d) \<and>
        (err = None \<longrightarrow> d' = d\<lparr>Id := []\<rparr> \<and>
           (\<exists>conn0. findKmsGrantById n (key_id d) (grant_id d) None conn0 =
              Return ((None,
                Some (KmsGrantMissingError (missingMessage (grant_id d) (key_id d)))), conn')))"
  proof (cases answer)
    case (Some e)
    with assms revoke show ?thesis
      by (auto simp: resourceAwsKmsGrantDelete_def)
  next
    case None
    with assms revoke obtain err' where
      wait: "waitForKmsGrantToBeRevoked n (key_id d) (grant_id d) ?conn1 = Return (err', conn')"
      and res: "err = err'" "d' = (case err' of Some e \<Rightarrow> d | None \<Rightarrow> d\<lparr>Id := []\<rparr>)"
      by (auto simp: resourceAwsKmsGrantDelete_def split: outcome.splits option.splits)
    from kept_revokes [OF waitForKmsGrantToBeRevoked_kept [OF wait]]
    have calls: "filter isRevokeGrantCall (calls conn') =
        filter isRevokeGrantCall (calls conn) @ [?call]"
      by simp
    show ?thesis
    proof (cases err')
      case None
      with wait have "\<exists>conn0. findKmsGrantById n (key_id d) (grant_id d) None conn0 =
          Return ((None,
            Some (KmsGrantMissingError (missingMessage (grant_id d) (key_id d)))), conn')"
        unfolding waitForKmsGrantToBeRevoked_def by (intro Retry_revokedAttempt_success) simp
      with None res calls show ?thesis by simp
    next
      case (Some e)
      with res calls show ?thesis by simp
    qed
  qed
  then show "filter isRevokeGrantCall (calls conn') =
           filter isRevokeGrantCall (calls conn) @ [?call]"
    and "err \<noteq> None \<Longrightarrow> d' = d"
    and "err = None \<Longrightarrow> d' = d\<lparr>Id := []\<rparr> \<and>
           (\<exists>conn0. findKmsGrantById n (key_id d) (grant_id d) None conn0 =
              Return ((None,
                Some (KmsGrantMissingError (missingMessage (grant_id d) (key_id d)))), conn'))"
    by simp_all
qed

lemma resourceAwsKmsGrantDelete_gone_after:
  assumes "revokeGrantScript conn = None # revokes"
    and "pagesWithout (grant_id d) pages" and "lastWithout (grant_id d) page"
    and "pagesWithout (grant_id d) pages'"
    and "getKmsGrantById (Grants page') (grant_id d) = Return (Some grant)"
    and "k \<le> n"
    and "listGrantsScript conn =
      concat (replicate k (map answer (pages' @ [page']))) @ map answer (pages @ [page]) @ rest"
  shows "resourceAwsKmsGrantDelete n d conn =
     Return ((None, d\<lparr>Id := []\<rparr>),
       conn\<lparr>revokeGrantScript := revokes, listGrantsScript := rest,
            calls := calls conn @
              [RevokeGrantCall \<lparr>rgiGrantId = grant_id d, rgiKeyId = key_id d\<rparr>] @
              concat (replicate k (fetches (key_id d) None pages')) @
              fetches (key_id d) None pages\<rparr>)"
proof -
  let ?conn1 = "conn\<lparr>revokeGrantScript := revokes,
    calls := calls conn @ [RevokeGrantCall \<lparr>rgiGrantId = grant_id d, rgiKeyId = key_id d\<rparr>]\<rparr>"
  have "waitForKmsGrantToBeRevoked n (key_id d) (grant_id d) ?conn1 =
      Return (None, ?conn1\<lparr>listGrantsScript := rest,
            calls := calls ?conn1 @ concat (replicate k (fetches (key_id d) None pages')) @
              fetches (key_id d) None pages\<rparr>)"
    unfolding waitForKmsGrantToBeRevoked_def
    using assms by (intro Retry_revokedAttempt_gone_after) simp_all
  with assms(1) show ?thesis
    by (simp add: resourceAwsKmsGrantDelete_def RevokeGrant_def)
qed

lemma resourceAwsKmsGrantDelete_found_throughout:
  assumes "revokeGrantScript conn = None # revokes"
    and "pagesWithout (grant_id d) pages"
    and "getKmsGrantById (Grants page) (grant_id d) = Return (Some grant)"
    and "listGrantsScript conn = concat (replicate (Suc n) (map answer (pages @ [page]))) @ rest"
  shows "resourceAwsKmsGrantDelete n d conn =
     Return ((Some (DeadlineExceededError (stillExists (grant_id d))), d),
       conn\<lparr>revokeGrantScript := revokes, listGrantsScript := rest,
            calls := calls conn @
              [RevokeGrantCall \<lparr>rgiGrantId = grant_id d, rgiKeyId = key_id d\<rparr>] @
              concat (replicate (Suc n) (fetches (key_id d) None pages))\<rparr>)"
proof -
  let ?conn1 = "conn\<lparr>revokeGrantScript := revokes,
    calls := calls conn @ [RevokeGrantCall \<lparr>rgiGrantId = grant_id d, rgiKeyId = key_id d\<rparr>]\<rparr>"
  have "waitForKmsGrantToBeRevoked n (key_id d) (grant_id d) ?conn1 =
      Return (Some (DeadlineExceededError (stillExists (grant_id d))),
        ?conn1\<lparr>listGrantsScript := rest,
            calls := calls ?conn1 @ concat (replicate (Suc n) (fetches (key_id d) None pages))\<rparr>)"
    unfolding waitForKmsGrantToBeRevoked_def
    using assms by (intro Retry_revokedAttempt_found_throughout) simp_all
  with assms(1) show ?thesis
    by (simp add: resourceAwsKmsGrantDelete_def RevokeGrant_def)
qed

lemma resourceAwsKmsGrantRead_found:
  assumes "findKmsGrantByIdWithRetry n (key_id d) (Id d) conn = Return ((Some grant, None), conn')"
    and "GranteePrincipal grant = Some gp" and "Name grant = Some nm"
  shows "resourceAwsKmsGrantRead n d conn =
     Return ((None,
       d\<lparr>grantee_principal := (if HasPrefix gp ''arn:aws'' then gp else grantee_principal d),
         retiring_principal :=
           (case RetiringPrincipal grant of
              Some rp \<Rightarrow> if HasPrefix rp ''arn:aws'' then rp else retiring_principal d
            | None \<Rightarrow> retiring_principal d),
         operations := Operations grant,
         name := (if nm \<noteq> [] then nm else name d),
         constraints :=
           (case Constraints grant of
              Some c \<Rightarrow> flattenKmsGrantConstraints (Some c)
            | None \<Rightarrow> constraints d)\<rparr>), conn')"
  using assms
  by (simp add: resourceAwsKmsGrantRead_def readGrant_def setGranteePrincipal_def
      setRetiringPrincipal_def setName_def setConstraintsState_def split: option.splits)

lemma resourceAwsKmsGrantExists_eq:
  "resourceAwsKmsGrantExists n d conn =
     (case findKmsGrantByIdWithRetry n (key_id d) (Id d) conn of
        Return ((grant, err), conn') \<Rightarrow> Return ((err \<noteq> None \<or> grant \<noteq> None, err), conn')
      | Panic \<Rightarrow> Panic
      | Unscripted \<Rightarrow> Unscripted)"
  by (auto simp: resourceAwsKmsGrantExists_def split: outcome.splits option.splits)

lemma resourceAwsKmsGrantDelete_gone_first_poll:
  assumes "revokeGrantScript conn = None # revokes"
    and "pagesWithout (grant_id d) pages" and "lastWithout (grant_id d) page"
    and "listGrantsScript conn = map answer (pages @ [page]) @ rest"
  shows "resourceAwsKmsGrantDelete n d conn =
     Return ((None, d\<lparr>Id := []\<rparr>),
       conn\<lparr>revokeGrantScript := revokes, listGrantsScript := rest,
            calls := calls conn @
              [RevokeGrantCall \<lparr>rgiGrantId = grant_id d, rgiKeyId = key_id d\<rparr>] @
              fetches (key_id d) None pages\<rparr>)"
proof -
  let ?conn1 = "conn\<lparr>revokeGrantScript := revokes,
    calls := calls conn @ [RevokeGrantCall \<lparr>rgiGrantId = grant_id d, rgiKeyId = key_id d\<rparr>]\<rparr>"
  have "revokedAttempt n (key_id d) (grant_id d) ?conn1 =
      Return (None, ?conn1\<lparr>listGrantsScript := rest,
            calls := calls ?conn1 @ fetches (key_id d) None pages\<rparr>)"
    using assms by (intro revokedAttempt_missing) simp_all
  then have "waitForKmsGrantToBeRevoked n (key_id d) (grant_id d) ?conn1 =
      Return (None, ?conn1\<lparr>listGrantsScript := rest,
            calls := calls ?conn1 @ fetches (key_id d) None pages\<rparr>)"
    unfolding waitForKmsGrantToBeRevoked_def by (cases n) simp_all
  with assms(1) show ?thesis
    by (simp add: resourceAwsKmsGrantDelete_def RevokeGrant_def)
qed

lemmas example_defs = exampleKMS_def exampleState_def exampleListCall_def exampleRevokeCall_def
  exampleFirstPage_def exampleLastPage_def exampleEmptyPage_def exampleGrant_def
  lastWithout_def fetches_def missingMessage_def stillExists_def answer_def

lemma Retry_success:
  "Retry n f s = Return (None, s') \<Longrightarrow> \<exists>s0. f s0 = Return (None, s')"
proof (induction n arbitrary: s)
  case 0
  then have "f s = Return (None, s')"
    by (auto split: outcome.splits option.splits RetryError.splits)
  then show ?case by blast
next
  case (Suc n)
  show ?case
  proof (cases "f s = Return (None, s')")
    case True
    then show ?thesis by blast
  next
    case False
    with Suc.prems have "\<exists>s1. Retry n f s1 = Return (None, s')"
      by (auto split: outcome.splits option.splits RetryError.splits)
    then show ?thesis using Suc.IH by blast
  qed
qed

lemma findAttempt_success:
  assumes "findAttempt r keyId grantId s = Return (None, s')"
  shows "fst s' \<noteq> None"
proof -
  from assms obtain grant conn where
    find: "findKmsGrantById r keyId grantId None (snd s) = Return ((grant, None), conn)"
    and s': "s' = (grant, conn)"
    by (auto simp: findAttempt_def split: outcome.splits option.splits if_splits)
  from findKmsGrantById_result [OF find] s' show ?thesis by auto
qed

lemma findKmsGrantByIdWithRetry_grant_or_error:
  assumes "findKmsGrantByIdWithRetry n keyId grantId conn = Return ((grant, err), conn')"
  shows "err \<noteq> None \<or> grant \<noteq> None"
proof (cases err)
  case None
  with assms have "Retry n (findAttempt n keyId grantId) (None, conn) = Return (None, (grant, conn'))"
    by (auto simp: findKmsGrantByIdWithRetry_def split: outcome.splits)
  from Retry_success [OF this] findAttempt_success show ?thesis
    by fastforce
next
  case (Some e)
  then show ?thesis by simp
qed

lemma readGrant_Id: "readGrant grant d = Return d' \<Longrightarrow> Id d' = Id d"
  by (auto simp: readGrant_def setGranteePrincipal_def setRetiringPrincipal_def setName_def
      setConstraintsState_def split: option.splits outcome.splits if_splits)

lemma resourceAwsKmsGrantRead_never_clears:
  assumes "resourceAwsKmsGrantRead n d conn = Return ((err, d'), conn')"
  shows "Id d' = Id d"
proof -
  from assms obtain grant e where
    find: "findKmsGrantByIdWithRetry n (key_id d) (Id d) conn = Return ((grant, e), conn')"
    by (auto simp: resourceAwsKmsGrantRead_def split: outcome.splits option.splits)
  show ?thesis
  proof (cases e)
    case (Some x)
    with assms find show ?thesis by (simp add: resourceAwsKmsGrantRead_def)
  next
    case None
    with findKmsGrantByIdWithRetry_grant_or_error [OF find] obtain g where "grant = Some g"
      by auto
    with assms find None show ?thesis
      by (auto simp: resourceAwsKmsGrantRead_def dest: readGrant_Id split: outcome.splits)
  qed
qed

lemma resourceAwsKmsGrantRead_missing_throughout:
  assumes "pagesWithout (Id d) pages" and "lastWithout (Id d) page"
    and "listGrantsScript conn = concat (replicate (Suc n) (map answer (pages @ [page]))) @ rest"
  shows "resourceAwsKmsGrantRead n d conn =
     Return ((Some (DeadlineExceededError (KmsGrantMissingError (missingMessage (Id d) (key_id d)))),
         d),
       conn\<lparr>listGrantsScript := rest,
            calls := calls conn @ concat (replicate (Suc n) (fetches (key_id d) None pages))\<rparr>)"
  using findKmsGrantByIdWithRetry_missing_throughout [OF assms, of "key_id d"]
  by (simp add: resourceAwsKmsGrantRead_def)

lemma resourceAwsKmsGrantRead_found_after:
  assumes "pagesWithout (Id d) pages" and "lastWithout (Id d) page"
    and "pagesWithout (Id d) pages'"
    and "getKmsGrantById (Grants page') (Id d) = Return (Some grant)"
    and "k \<le> n"
    and "listGrantsScript conn =
      concat (replicate k (map answer (pages @ [page]))) @ map answer (pages' @ [page']) @ rest"
  shows "resourceAwsKmsGrantRead n d conn =
     (case readGrant grant d of
        Return d' \<Rightarrow>
          Return ((None, d'),
            conn\<lparr>listGrantsScript := rest,
                 calls := calls conn @ concat (replicate k (fetches (key_id d) None pages)) @
                   fetches (key_id d) None pages'\<rparr>)
      | Panic \<Rightarrow> Panic
      | Unscripted \<Rightarrow> Unscripted)"
  using findKmsGrantByIdWithRetry_found_after [OF assms, of "key_id d"]
  by (simp add: resourceAwsKmsGrantRead_def)

lemma resourceAwsKmsGrantExists_missing_throughout:
  assumes "pagesWithout (Id d) pages" and "lastWithout (Id d) page"
    and "listGrantsScript conn = concat (replicate (Suc n) (map answer (pages @ [page]))) @ rest"
  shows "resourceAwsKmsGrantExists n d conn =
     Return ((True,
         Some (DeadlineExceededError (KmsGrantMissingError (missingMessage (Id d) (key_id d))))),
       conn\<lparr>listGrantsScript := rest,
            calls := calls conn @ concat (replicate (Suc n) (fetches (key_id d) None pages))\<rparr>)"
  using findKmsGrantByIdWithRetry_missing_throughout [OF assms, of "key_id d"]
  by (simp add: resourceAwsKmsGrantExists_def)

lemmas example_defs2 = example_defs exampleInternalGrant_def exampleInternalPage_def
  exampleMissing_def

lemma example_readGrant:
  "readGrant (exampleGrant ''abc123'') exampleState = Return (exampleState\<lparr>name := ''grant''\<rparr>)"
  by (simp add: readGrant_def setGranteePrincipal_def setRetiringPrincipal_def setName_def
      setConstraintsState_def HasPrefix_def example_defs)

subsection \<open>Pages read from the data\<close>

lemma getKmsGrantById_lacks:
  "lacksGrant grantId grants \<Longrightarrow> getKmsGrantById grants grantId = Return None"
  by (induction grants) (auto simp: lacksGrant_def split: option.splits)

lemma getKmsGrantById_first:
  "lacksGrant grantId before \<Longrightarrow> GrantId grant = Some grantId \<Longrightarrow>
   getKmsGrantById (before @ grant # after) grantId = Return (Some grant)"
  by (induction before) (auto simp: lacksGrant_def split: option.splits)

lemma getKmsGrantById_None_iff:
  "getKmsGrantById grants grantId = Return None \<longleftrightarrow> lacksGrant grantId grants"
  by (induction grants) (auto simp: lacksGrant_def split: option.splits)

lemma pagesLack_pagesWithout: "pagesLack grantId pages \<Longrightarrow> pagesWithout grantId pages"
  by (induction pages) (simp_all add: getKmsGrantById_lacks)

subsection \<open>Retried creation\<close>

lemma createGrantAttempt_classified:
  "createGrantScript conn = (out, Some e) # rest \<Longrightarrow>
   createGrantAttempt input (x, conn) =
     Return (Some
       (if retryableCreateError e then RetryableError (createRetryWarning (cgiKeyId input) e)
        else NonRetryableError e),
       (out, conn\<lparr>createGrantScript := rest, calls := calls conn @ [CreateGrantCall input]\<rparr>))"
  by (simp add: createGrantAttempt_failed retryableCreateError_def createRetryWarning_def)

lemma createGrantAttempt_succeeded:
  "createGrantScript conn = (out, None) # rest \<Longrightarrow>
   createGrantAttempt input (x, conn) =
     Return (None,
       (out, conn\<lparr>createGrantScript := rest, calls := calls conn @ [CreateGrantCall input]\<rparr>))"
  by (simp add: createGrantAttempt_def CreateGrant_def)

lemma Retry_createGrantAttempt_failures:
  "list_all retryableCreateError (map snd fails) \<Longrightarrow> length fails \<le> n \<Longrightarrow>
   createGrantScript conn = createFailures fails @ script \<Longrightarrow>
   \<exists>x'. Retry n (createGrantAttempt input) (x, conn) =
     Retry (n - length fails) (createGrantAttempt input)
       (x', conn\<lparr>createGrantScript := script,
                 calls := calls conn @ replicate (length fails) (CreateGrantCall input)\<rparr>)"
proof (induction fails arbitrary: n x conn)
  case Nil
  then have "conn\<lparr>createGrantScript := script, calls := calls conn\<rparr> = conn"
    by (simp add: createFailures_def)
  then show ?case by (intro exI [of _ x]) simp
next
  case (Cons fail fails)
  obtain out e where fail: "fail = (out, e)" by (cases fail)
  from Cons.prems obtain m where n: "n = Suc m" and m: "length fails \<le> m" by (cases n) auto
  let ?conn = "conn\<lparr>createGrantScript := createFailures fails @ script,
    calls := calls conn @ [CreateGrantCall input]\<rparr>"
  have "createGrantScript conn = (out, Some e) # createFailures fails @ script"
    using Cons.prems(3) fail by (simp add: createFailures_def)
  from createGrantAttempt_classified [OF this] Cons.prems(1) fail
  have "createGrantAttempt input (x, conn) =
      Return (Some (RetryableError (createRetryWarning (cgiKeyId input) e)), (out, ?conn))"
    by simp
  then have step: "Retry n (createGrantAttempt input) (x, conn) =
      Retry m (createGrantAttempt input) (out, ?conn)"
    using n by simp
  from Cons.prems(1) have "list_all retryableCreateError (map snd fails)" by simp
  from Cons.IH [OF this m, of ?conn out] obtain x' where
    "Retry m (createGrantAttempt input) (out, ?conn) =
     Retry (m - length fails) (createGrantAttempt input)
       (x', ?conn\<lparr>createGrantScript := script,
                 calls := calls ?conn @ replicate (length fails) (CreateGrantCall input)\<rparr>)"
    by auto
  with step n show ?case
    by (intro exI [of _ x']) (simp add: replicate_app_Cons_same)
qed

lemma Retry_createGrantAttempt_fatal:
  assumes "list_all retryableCreateError (map snd fails)" and "length fails \<le> n"
    and "\<not> retryableCreateError e"
    and "createGrantScript conn = createFailures fails @ (out, Some e) # rest"
  shows "Retry n (createGrantAttempt input) (x, conn) =
     Return (Some e,
       (out, conn\<lparr>createGrantScript := rest,
               calls := calls conn @ replicate (Suc (length fails)) (CreateGrantCall input)\<rparr>))"
proof -
  let ?conn = "conn\<lparr>createGrantScript := (out, Some e) # rest,
    calls := calls conn @ replicate (length fails) (CreateGrantCall input)\<rparr>"
  from Retry_createGrantAttempt_failures [OF assms(1,2,4)] obtain x' where
    retry: "Retry n (createGrantAttempt input) (x, conn) =
      Retry (n - length fails) (createGrantAttempt input) (x', ?conn)"
    by blast
  have "createGrantAttempt input (x', ?conn) =
      Return (Some (NonRetryableError e),
        (out, ?conn\<lparr>createGrantScript := rest,
                calls := calls ?conn @ [CreateGrantCall input]\<rparr>))"
    using createGrantAttempt_classified [of ?conn out e rest input x'] assms(3) by simp
  then have "Retry (n - length fails) (createGrantAttempt input) (x', ?conn) =
      Return (Some e,
        (out, ?conn\<lparr>createGrantScript := rest,
                calls := calls ?conn @ [CreateGrantCall input]\<rparr>))"
    by (rule Retry_nonretryable [where f = "createGrantAttempt input"])
  with retry show ?thesis
    by (simp add: replicate_append_same)
qed

lemma Retry_createGrantAttempt_success:
  assumes "list_all retryableCreateError (map snd fails)" and "length fails \<le> n"
    and "createGrantScript conn = createFailures fails @ (out, None) # rest"
  shows "Retry n (createGrantAttempt input) (x, conn) =
     Return (None,
       (out, conn\<lparr>createGrantScript := rest,
               calls := calls conn @ replicate (Suc (length fails)) (CreateGrantCall input)\<rparr>))"
proof -
  let ?conn = "conn\<lparr>createGrantScript := (out, None) # rest,
    calls := calls conn @ replicate (length fails) (CreateGrantCall input)\<rparr>"
  from Retry_createGrantAttempt_failures [OF assms(1,2,3)] obtain x' where
    retry: "Retry n (createGrantAttempt input) (x, conn) =
      Retry (n - length fails) (createGrantAttempt input) (x', ?conn)"
    by blast
  have "createGrantAttempt input (x', ?conn) =
      Return (None,
        (out, ?conn\<lparr>createGrantScript := rest,
                calls := calls ?conn @ [CreateGrantCall input]\<rparr>))"
    by (rule createGrantAttempt_succeeded) simp
  then have "Retry (n - length fails) (createGrantAttempt input) (x', ?conn) =
      Return (None,
        (out, ?conn\<lparr>createGrantScript := rest,
                calls := calls ?conn @ [CreateGrantCall input]\<rparr>))"
    by (cases "n - length fails") simp_all
  with retry show ?thesis
    by (simp add: replicate_append_same)
qed

lemma Retry_createGrantAttempt_exhausted:
  assumes "list_all retryableCreateError (map snd fails)" and "length fails = n"
    and "retryableCreateError e"
    and "createGrantScript conn = createFailures (fails @ [(out, e)]) @ rest"
  shows "Retry n (createGrantAttempt input) (x, conn) =
     Return (Some (DeadlineExceededError (createRetryWarning (cgiKeyId input) e)),
       (out, conn\<lparr>createGrantScript := rest,
               calls := calls conn @ replicate (Suc n) (CreateGrantCall input)\<rparr>))"
proof -
  let ?conn = "conn\<lparr>createGrantScript := (out, Some e) # rest,
    calls := calls conn @ replicate (length fails) (CreateGrantCall input)\<rparr>"
  have script: "createGrantScript conn = createFailures fails @ (out, Some e) # rest"
    using assms(4) by (simp add: createFailures_def)
  from assms(2) have le: "length fails \<le> n" by simp
  from Retry_createGrantAttempt_failures [OF assms(1) le script] obtain x' where
    retry: "Retry n (createGrantAttempt input) (x, conn) =
      Retry (n - length fails) (createGrantAttempt input) (x', ?conn)"
    by blast
  have "createGrantAttempt input (x', ?conn) =
      Return (Some (RetryableError (createRetryWarning (cgiKeyId input) e)),
        (out, ?conn\<lparr>createGrantScript := rest,
                calls := calls ?conn @ [CreateGrantCall input]\<rparr>))"
    using createGrantAttempt_classified [of ?conn out e rest input x'] assms(3) by simp
  then have "Retry 0 (createGrantAttempt input) (x', ?conn) =
      Return (Some (DeadlineExceededError (createRetryWarning (cgiKeyId input) e)),
        (out, ?conn\<lparr>createGrantScript := rest,
                calls := calls ?conn @ [CreateGrantCall input]\<rparr>))"
    by simp
  with retry assms(2) show ?thesis
    by (simp add: replicate_append_same)
qed

lemma resourceAwsKmsGrantCreate_fatal_after:
  assumes "kmsGrantConstraintsIsValid (constraints d)"
    and "list_all retryableCreateError (map snd fails)" and "length fails \<le> n"
    and "\<not> retryableCreateError e"
    and "createGrantScript conn = createFailures fails @ (out, Some e) # rest"
  shows "resourceAwsKmsGrantCreate n d conn =
     Return ((Some e, d),
       conn\<lparr>createGrantScript := rest,
            calls := calls conn @
              replicate (Suc (length fails)) (CreateGrantCall (createGrantInput d))\<rparr>)"
  using Retry_createGrantAttempt_fatal [OF assms(2-5), of "createGrantInput d" None] assms(1)
  by (simp add: resourceAwsKmsGrantCreate_def)

lemma resourceAwsKmsGrantCreate_success_after:
  assumes "kmsGrantConstraintsIsValid (constraints d)"
    and "list_all retryableCreateError (map snd fails)" and "length fails \<le> n"
    and "cgoGrantId out = Some grantId"
    and "createGrantScript conn = createFailures fails @ (Some out, None) # rest"
  shows "resourceAwsKmsGrantCreate n d conn =
     resourceAwsKmsGrantRead n
       (d\<lparr>Id := grantId, grant_id := grantId,
          grant_token := (case cgoGrantToken out of Some t \<Rightarrow> t | None \<Rightarrow> [])\<rparr>)
       (conn\<lparr>createGrantScript := rest,
             calls := calls conn @
               replicate (Suc (length fails)) (CreateGrantCall (createGrantInput d))\<rparr>)"
  using Retry_createGrantAttempt_success [OF assms(2,3,5), of "createGrantInput d" None]
    assms(1,4)
  by (simp add: resourceAwsKmsGrantCreate_def)

lemma resourceAwsKmsGrantCreate_exhausted:
  assumes "kmsGrantConstraintsIsValid (constraints d)"
    and "list_all retryableCreateError (map snd fails)" and "length fails = n"
    and "retryableCreateError e"
    and "createGrantScript conn = createFailures (fails @ [(out, e)]) @ rest"
  shows "resourceAwsKmsGrantCreate n d conn =
     Return ((Some (DeadlineExceededError (createRetryWarning (key_id d) e)), d),
       conn\<lparr>createGrantScript := rest,
            calls := calls conn @ replicate (Suc n) (CreateGrantCall (createGrantInput d))\<rparr>)"
  using Retry_createGrantAttempt_exhausted [OF assms(2-5), of "createGrantInput d" None] assms(1)
  by (simp add: resourceAwsKmsGrantCreate_def) (simp add: createGrantInput_def)

lemma example_valid: "kmsGrantConstraintsIsValid (constraints exampleNewState)"
  by (simp add: exampleNewState_def kmsGrantConstraintsIsValid_def)

lemma example_retryable:
  "retryableCreateError exampleInvalidArn"
  "\<not> retryableCreateError (AwsError ''AccessDeniedException'' ''denied'')"
  "\<not> retryableCreateError (OtherError ''connection reset'')"
  by (simp_all add: retryableCreateError_def exampleInvalidArn_def)

lemma example_created:
  "exampleNewState\<lparr>Id := ''abc123'', grant_id := ''abc123'', grant_token := ''token''\<rparr> =
   exampleState"
  by (simp add: exampleNewState_def exampleState_def)

subsection \<open>The error method\<close>

lemma KmsGrantMissingError_Error_not_Some:
  "KmsGrantMissingError_Error e = Some msg \<Longrightarrow> False"
  by (rule KmsGrantMissingError_Error.raw_induct [where P = "\<lambda>_ _. False"])

section \<open>Theorems\<close>

text \<open>
  C1: the constraint fingerprint is deterministic and independent of the order of the map
  entries. For two elements whose maps are well formed (distinct keys) and hold the same
  entries under each kind, in whatever order the runtime visits them,
  \<^verbatim>\<open>resourceKmsGrantConstraintsHash\<close> returns the same integer, and that integer is the hash of
  the serialization of the specification: per kind, the kind tag and the entries in ascending
  order of their keys, and nothing for a kind whose map is empty or absent.
\<close>

theorem resourceKmsGrantConstraintsHash_order_independent:
  assumes "distinct (map fst (entries (encryption_context_equals c)))"
    and "distinct (map fst (entries (encryption_context_subset c)))"
    and "distinct (map fst (entries (encryption_context_equals c')))"
    and "distinct (map fst (entries (encryption_context_subset c')))"
    and "set (entries (encryption_context_equals c)) = set (entries (encryption_context_equals c'))"
    and "set (entries (encryption_context_subset c)) = set (entries (encryption_context_subset c'))"
  shows "resourceKmsGrantConstraintsHash h (MapValue c) =
           resourceKmsGrantConstraintsHash h (MapValue c') \<and>
         resourceKmsGrantConstraintsHash h (MapValue c) =
           Return (h (serialized ''encryption_context_equals'' (entries (encryption_context_equals c)) @
                      serialized ''encryption_context_subset'' (entries (encryption_context_subset c))))"
proof -
  have "serialized ''encryption_context_equals'' (entries (encryption_context_equals c)) =
      serialized ''encryption_context_equals'' (entries (encryption_context_equals c'))"
    using assms by (intro serialized_same)
  moreover have "serialized ''encryption_context_subset'' (entries (encryption_context_subset c)) =
      serialized ''encryption_context_subset'' (entries (encryption_context_subset c'))"
    using assms by (intro serialized_same)
  ultimately show ?thesis
    using assms
    by (simp add: resourceKmsGrantConstraintsHash_def constraintsBuffer_serialized)
qed

theorem resourceKmsGrantConstraintsHash_order_independent_witness:
  "resourceKmsGrantConstraintsHash exampleHash
     (MapValue \<lparr>encryption_context_equals = Some [(''b'', ''2''), (''a'', ''1'')],
                encryption_context_subset = Some []\<rparr>) =
   resourceKmsGrantConstraintsHash exampleHash
     (MapValue \<lparr>encryption_context_equals = Some [(''a'', ''1''), (''b'', ''2'')],
                encryption_context_subset = None\<rparr>) \<and>
   resourceKmsGrantConstraintsHash exampleHash
     (MapValue \<lparr>encryption_context_equals = Some [(''b'', ''2''), (''a'', ''1'')],
                encryption_context_subset = Some []\<rparr>) =
   Return (exampleHash ''encryption_context_equals-a-1-b-2-'')"
  using resourceKmsGrantConstraintsHash_order_independent
    [of "\<lparr>encryption_context_equals = Some [(''b'', ''2''), (''a'', ''1'')],
          encryption_context_subset = Some []\<rparr>"
        "\<lparr>encryption_context_equals = Some [(''a'', ''1''), (''b'', ''2'')],
          encryption_context_subset = None\<rparr>" exampleHash]
  by (auto simp add: entries_def serialized_def insert_commute)

text \<open>
  C2: a constraint set is valid if and only if the number of variants, over the whole set,
  whose mapping is non-empty is at most one; so an element with both mappings is valid exactly
  when one of the two is empty. \<^verbatim>\<open>Create\<close> returns the validation error, with the state and
  the connection untouched (no remote call was made), exactly when the set is invalid.
\<close>

theorem kmsGrantConstraintsIsValid_at_most_one:
  "(kmsGrantConstraintsIsValid cs \<longleftrightarrow> nonEmptyVariants cs \<le> 1) \<and>
   (kmsGrantConstraintsIsValid
      [\<lparr>encryption_context_equals = Some eq, encryption_context_subset = Some sub\<rparr>] \<longleftrightarrow>
    eq = [] \<or> sub = []) \<and>
   (resourceAwsKmsGrantCreate retries d conn = Return ((Some constraintsError, d), conn) \<longleftrightarrow>
    \<not> kmsGrantConstraintsIsValid (constraints d))"
  by (simp only: kmsGrantConstraintsIsValid_iff [symmetric] kmsGrantConstraintsIsValid_single
      resourceAwsKmsGrantCreate_invalid_iff simp_thms)

theorem kmsGrantConstraintsIsValid_at_most_one_witness:
  "\<not> kmsGrantConstraintsIsValid
       [\<lparr>encryption_context_equals = Some [(''x'', ''1'')], encryption_context_subset = None\<rparr>,
        \<lparr>encryption_context_equals = None, encryption_context_subset = Some [(''y'', ''2'')]\<rparr>] \<and>
   kmsGrantConstraintsIsValid
       [\<lparr>encryption_context_equals = Some [(''x'', ''1'')], encryption_context_subset = Some []\<rparr>] \<and>
   resourceAwsKmsGrantCreate 1
       (exampleState\<lparr>constraints :=
          [\<lparr>encryption_context_equals = Some [(''x'', ''1'')],
            encryption_context_subset = Some [(''y'', ''2'')]\<rparr>]\<rparr>)
       (exampleKMS [] [] []) =
     Return ((Some constraintsError,
        exampleState\<lparr>constraints :=
          [\<lparr>encryption_context_equals = Some [(''x'', ''1'')],
            encryption_context_subset = Some [(''y'', ''2'')]\<rparr>]\<rparr>),
       exampleKMS [] [] [])"
proof -
  note claim = kmsGrantConstraintsIsValid_at_most_one
  have two: "\<not> kmsGrantConstraintsIsValid
       [\<lparr>encryption_context_equals = Some [(''x'', ''1'')], encryption_context_subset = None\<rparr>,
        \<lparr>encryption_context_equals = None, encryption_context_subset = Some [(''y'', ''2'')]\<rparr>]"
    using claim [where cs =
        "[\<lparr>encryption_context_equals = Some [(''x'', ''1'')], encryption_context_subset = None\<rparr>,
          \<lparr>encryption_context_equals = None, encryption_context_subset = Some [(''y'', ''2'')]\<rparr>]",
        THEN conjunct1]
    by (simp add: nonEmptyVariants_def variants_def)
  have one: "kmsGrantConstraintsIsValid
       [\<lparr>encryption_context_equals = Some [(''x'', ''1'')], encryption_context_subset = Some []\<rparr>]"
    using claim [where eq = "[(''x'', ''1'')]" and sub = "[]", THEN conjunct2, THEN conjunct1]
    by simp
  have both: "\<not> kmsGrantConstraintsIsValid
       [\<lparr>encryption_context_equals = Some [(''x'', ''1'')],
         encryption_context_subset = Some [(''y'', ''2'')]\<rparr>]"
    using claim [where eq = "[(''x'', ''1'')]" and sub = "[(''y'', ''2'')]",
        THEN conjunct2, THEN conjunct1]
    by simp
  have create: "resourceAwsKmsGrantCreate 1
       (exampleState\<lparr>constraints :=
          [\<lparr>encryption_context_equals = Some [(''x'', ''1'')],
            encryption_context_subset = Some [(''y'', ''2'')]\<rparr>]\<rparr>)
       (exampleKMS [] [] []) =
     Return ((Some constraintsError,
        exampleState\<lparr>constraints :=
          [\<lparr>encryption_context_equals = Some [(''x'', ''1'')],
            encryption_context_subset = Some [(''y'', ''2'')]\<rparr>]\<rparr>),
       exampleKMS [] [] [])"
    using claim [where retries = 1 and conn = "exampleKMS [] [] []"
        and d = "exampleState\<lparr>constraints :=
          [\<lparr>encryption_context_equals = Some [(''x'', ''1'')],
            encryption_context_subset = Some [(''y'', ''2'')]\<rparr>]\<rparr>",
        THEN conjunct2, THEN conjunct2] both
    by simp
  from two one create show ?thesis by simp
qed

text \<open>
  C3: the paginated search. Let the script of the remote service start with \<open>N\<close> pages of
  which the first \<open>N - 1\<close> are truncated and hold no grant with the searched identifier. If
  the last of them holds a grant with that identifier, the search returns the first such
  grant of the page, whatever follows in the script and whether or not that page is marked
  truncated; if the last is not truncated and holds no such grant either, the search returns
  \<^verbatim>\<open>KmsGrantMissingError\<close>. In both cases it has made exactly \<open>N\<close> calls of \<^verbatim>\<open>ListGrants\<close>,
  each after the first with the marker the page before returned, and has left the rest of the
  script unread. What a page holds is said of its list of grants, not of the search.
\<close>

theorem findKmsGrantById_pagination:
  assumes "pagesLack grantId pages"
    and "listGrantsScript conn = map answer (pages @ [page]) @ rest"
  shows "(Grants page = before @ grant # after \<and> lacksGrant grantId before \<and>
          GrantId grant = Some grantId \<longrightarrow>
            findKmsGrantById retries keyId grantId marker conn =
              Return ((Some grant, None),
                conn\<lparr>listGrantsScript := rest,
                     calls := calls conn @ fetches keyId marker pages\<rparr>)) \<and>
         (lacksGrant grantId (Grants page) \<and> Truncated page = Some False \<longrightarrow>
            findKmsGrantById retries keyId grantId marker conn =
              Return ((None, Some (KmsGrantMissingError (missingMessage grantId keyId))),
                conn\<lparr>listGrantsScript := rest,
                     calls := calls conn @ fetches keyId marker pages\<rparr>)) \<and>
         length (fetches keyId marker pages) = length (pages @ [page])"
proof (intro conjI impI)
  note without = pagesLack_pagesWithout [OF assms(1)]
  {
    assume "Grants page = before @ grant # after \<and> lacksGrant grantId before \<and>
          GrantId grant = Some grantId"
    then have "getKmsGrantById (Grants page) grantId = Return (Some grant)"
      by (simp add: getKmsGrantById_first)
    from findKmsGrantById_found_last [OF without this assms(2)]
    show "findKmsGrantById retries keyId grantId marker conn =
              Return ((Some grant, None),
                conn\<lparr>listGrantsScript := rest,
                     calls := calls conn @ fetches keyId marker pages\<rparr>)" .
  }
  {
    assume "lacksGrant grantId (Grants page) \<and> Truncated page = Some False"
    then have "lastWithout grantId page"
      by (simp add: lastWithout_def getKmsGrantById_lacks)
    from findKmsGrantById_missing [OF without this assms(2)]
    show "findKmsGrantById retries keyId grantId marker conn =
              Return ((None, Some (KmsGrantMissingError (missingMessage grantId keyId))),
                conn\<lparr>listGrantsScript := rest,
                     calls := calls conn @ fetches keyId marker pages\<rparr>)" .
  }
  show "length (fetches keyId marker pages) = length (pages @ [page])"
    by (simp add: fetches_def)
qed

theorem findKmsGrantById_pagination_witness:
  "findKmsGrantById 2 ''key-1'' ''abc123'' None
     (exampleKMS [] [exampleFirstPage, exampleMixedPage, exampleEmptyPage] []) =
     Return ((Some (exampleGrant ''abc123''), None),
       \<lparr>createGrantScript = [], listGrantsScript = [answer exampleEmptyPage],
        revokeGrantScript = [],
        calls = [ListGrantsCall \<lparr>lgiKeyId = ''key-1'', lgiLimit = 100, lgiMarker = None\<rparr>,
                 ListGrantsCall \<lparr>lgiKeyId = ''key-1'', lgiLimit = 100, lgiMarker = Some ''m1''\<rparr>]\<rparr>) \<and>
   findKmsGrantById 2 ''key-1'' ''abc123'' None
     (exampleKMS [] [exampleFirstPage, exampleEmptyPage] []) =
     Return ((None, Some (KmsGrantMissingError ''[DEBUG] Grant abc123 not found for key id: key-1'')),
       \<lparr>createGrantScript = [], listGrantsScript = [],
        revokeGrantScript = [],
        calls = [ListGrantsCall \<lparr>lgiKeyId = ''key-1'', lgiLimit = 100, lgiMarker = None\<rparr>,
                 ListGrantsCall \<lparr>lgiKeyId = ''key-1'', lgiLimit = 100, lgiMarker = Some ''m1''\<rparr>]\<rparr>)"
proof -
  note claim = findKmsGrantById_pagination [where grantId = "''abc123''"
      and pages = "[exampleFirstPage]" and retries = 2 and keyId = "''key-1''" and marker = None]
  have found: "findKmsGrantById 2 ''key-1'' ''abc123'' None
     (exampleKMS [] [exampleFirstPage, exampleMixedPage, exampleEmptyPage] []) =
     Return ((Some (exampleGrant ''abc123''), None),
       \<lparr>createGrantScript = [], listGrantsScript = [answer exampleEmptyPage],
        revokeGrantScript = [],
        calls = [ListGrantsCall \<lparr>lgiKeyId = ''key-1'', lgiLimit = 100, lgiMarker = None\<rparr>,
                 ListGrantsCall \<lparr>lgiKeyId = ''key-1'', lgiLimit = 100, lgiMarker = Some ''m1''\<rparr>]\<rparr>)"
    using claim [where conn = "exampleKMS [] [exampleFirstPage, exampleMixedPage, exampleEmptyPage] []"
        and page = exampleMixedPage and rest = "[answer exampleEmptyPage]"
        and before = "[exampleGrant ''earlier'']" and grant = "exampleGrant ''abc123''"
        and after = "[exampleGrant ''later'']", THEN conjunct1]
    by (simp add: exampleKMS_def exampleFirstPage_def exampleMixedPage_def exampleGrant_def
        lacksGrant_def fetches_def)
  have missing: "findKmsGrantById 2 ''key-1'' ''abc123'' None
     (exampleKMS [] [exampleFirstPage, exampleEmptyPage] []) =
     Return ((None, Some (KmsGrantMissingError ''[DEBUG] Grant abc123 not found for key id: key-1'')),
       \<lparr>createGrantScript = [], listGrantsScript = [],
        revokeGrantScript = [],
        calls = [ListGrantsCall \<lparr>lgiKeyId = ''key-1'', lgiLimit = 100, lgiMarker = None\<rparr>,
                 ListGrantsCall \<lparr>lgiKeyId = ''key-1'', lgiLimit = 100, lgiMarker = Some ''m1''\<rparr>]\<rparr>)"
    using claim [where conn = "exampleKMS [] [exampleFirstPage, exampleEmptyPage] []"
        and page = exampleEmptyPage and rest = "[]", THEN conjunct2, THEN conjunct1]
    by (simp add: exampleKMS_def exampleFirstPage_def exampleEmptyPage_def exampleGrant_def
        lacksGrant_def fetches_def missingMessage_def)
  from found missing show ?thesis by simp
qed

text \<open>
  C4: during \<^verbatim>\<open>Create\<close>, a failed \<^verbatim>\<open>CreateGrant\<close> call is classified retryable exactly when
  its error is an AWS error with the code \<^verbatim>\<open>DependencyTimeoutException\<close>,
  \<^verbatim>\<open>InternalException\<close> or \<^verbatim>\<open>InvalidArnException\<close>. \<^verbatim>\<open>Create\<close> acts on the classification:
  after failures of that kind, as many as the budget allows, an error of any other kind is
  returned to the caller as it is, with no further call (after no such failure: after the one
  call); a call that succeeds after such failures lets \<^verbatim>\<open>Create\<close> go on to read the grant
  created, so each of these failures was followed by another call; and when the failures of
  that kind use up the budget, \<^verbatim>\<open>Create\<close> returns the deadline-exceeded error of the last.
\<close>

theorem resourceAwsKmsGrantCreate_retry_classification:
  "(createGrantScript conn = (out, Some e) # rest \<longrightarrow>
      createGrantAttempt input (x, conn) =
        Return (Some
          (if retryableCreateError e then RetryableError (createRetryWarning (cgiKeyId input) e)
           else NonRetryableError e),
          (out, conn\<lparr>createGrantScript := rest,
                      calls := calls conn @ [CreateGrantCall input]\<rparr>))) \<and>
   (kmsGrantConstraintsIsValid (constraints d) \<and>
    list_all retryableCreateError (map snd fails) \<and> length fails \<le> n \<and>
    \<not> retryableCreateError e \<and>
    createGrantScript conn = createFailures fails @ (out, Some e) # rest \<longrightarrow>
      resourceAwsKmsGrantCreate n d conn =
        Return ((Some e, d),
          conn\<lparr>createGrantScript := rest,
               calls := calls conn @
                 replicate (Suc (length fails)) (CreateGrantCall (createGrantInput d))\<rparr>)) \<and>
   (kmsGrantConstraintsIsValid (constraints d) \<and>
    list_all retryableCreateError (map snd fails) \<and> length fails \<le> n \<and>
    cgoGrantId created = Some grantId \<and>
    createGrantScript conn = createFailures fails @ (Some created, None) # rest \<longrightarrow>
      resourceAwsKmsGrantCreate n d conn =
        resourceAwsKmsGrantRead n
          (d\<lparr>Id := grantId, grant_id := grantId,
             grant_token := (case cgoGrantToken created of Some t \<Rightarrow> t | None \<Rightarrow> [])\<rparr>)
          (conn\<lparr>createGrantScript := rest,
                calls := calls conn @
                  replicate (Suc (length fails)) (CreateGrantCall (createGrantInput d))\<rparr>)) \<and>
   (kmsGrantConstraintsIsValid (constraints d) \<and>
    list_all retryableCreateError (map snd fails) \<and> length fails = n \<and>
    retryableCreateError e \<and>
    createGrantScript conn = createFailures (fails @ [(out, e)]) @ rest \<longrightarrow>
      resourceAwsKmsGrantCreate n d conn =
        Return ((Some (DeadlineExceededError (createRetryWarning (key_id d) e)), d),
          conn\<lparr>createGrantScript := rest,
               calls := calls conn @
                 replicate (Suc n) (CreateGrantCall (createGrantInput d))\<rparr>))"
proof (intro conjI impI)
  assume "createGrantScript conn = (out, Some e) # rest"
  then show "createGrantAttempt input (x, conn) =
        Return (Some
          (if retryableCreateError e then RetryableError (createRetryWarning (cgiKeyId input) e)
           else NonRetryableError e),
          (out, conn\<lparr>createGrantScript := rest,
                      calls := calls conn @ [CreateGrantCall input]\<rparr>))"
    by (rule createGrantAttempt_classified)
next
  assume "kmsGrantConstraintsIsValid (constraints d) \<and>
    list_all retryableCreateError (map snd fails) \<and> length fails \<le> n \<and>
    \<not> retryableCreateError e \<and>
    createGrantScript conn = createFailures fails @ (out, Some e) # rest"
  then show "resourceAwsKmsGrantCreate n d conn =
        Return ((Some e, d),
          conn\<lparr>createGrantScript := rest,
               calls := calls conn @
                 replicate (Suc (length fails)) (CreateGrantCall (createGrantInput d))\<rparr>)"
    by (intro resourceAwsKmsGrantCreate_fatal_after) simp_all
next
  assume "kmsGrantConstraintsIsValid (constraints d) \<and>
    list_all retryableCreateError (map snd fails) \<and> length fails \<le> n \<and>
    cgoGrantId created = Some grantId \<and>
    createGrantScript conn = createFailures fails @ (Some created, None) # rest"
  then show "resourceAwsKmsGrantCreate n d conn =
        resourceAwsKmsGrantRead n
          (d\<lparr>Id := grantId, grant_id := grantId,
             grant_token := (case cgoGrantToken created of Some t \<Rightarrow> t | None \<Rightarrow> [])\<rparr>)
          (conn\<lparr>createGrantScript := rest,
                calls := calls conn @
                  replicate (Suc (length fails)) (CreateGrantCall (createGrantInput d))\<rparr>)"
    by (intro resourceAwsKmsGrantCreate_success_after) simp_all
next
  assume "kmsGrantConstraintsIsValid (constraints d) \<and>
    list_all retryableCreateError (map snd fails) \<and> length fails = n \<and>
    retryableCreateError e \<and>
    createGrantScript conn = createFailures (fails @ [(out, e)]) @ rest"
  then show "resourceAwsKmsGrantCreate n d conn =
        Return ((Some (DeadlineExceededError (createRetryWarning (key_id d) e)), d),
          conn\<lparr>createGrantScript := rest,
               calls := calls conn @
                 replicate (Suc n) (CreateGrantCall (createGrantInput d))\<rparr>)"
    by (intro resourceAwsKmsGrantCreate_exhausted) simp_all
qed

theorem resourceAwsKmsGrantCreate_retry_classification_witness:
  "resourceAwsKmsGrantCreate 1 exampleNewState
     (exampleKMS [(None, Some (AwsError ''AccessDeniedException'' ''denied'')),
                  (None, Some exampleInvalidArn)] [] []) =
     Return ((Some (AwsError ''AccessDeniedException'' ''denied''), exampleNewState),
       \<lparr>createGrantScript = [(None, Some exampleInvalidArn)], listGrantsScript = [],
        revokeGrantScript = [], calls = [exampleCreateCall]\<rparr>) \<and>
   resourceAwsKmsGrantCreate 1 exampleNewState
     (exampleKMS [(None, Some exampleInvalidArn), (None, Some (OtherError ''connection reset''))]
        [] []) =
     Return ((Some (OtherError ''connection reset''), exampleNewState),
       \<lparr>createGrantScript = [], listGrantsScript = [],
        revokeGrantScript = [], calls = [exampleCreateCall, exampleCreateCall]\<rparr>) \<and>
   resourceAwsKmsGrantCreate 1 exampleNewState
     (exampleKMS [(None, Some exampleInvalidArn),
                  (Some \<lparr>cgoGrantId = Some ''abc123'', cgoGrantToken = Some ''token''\<rparr>, None)]
        [exampleLastPage] []) =
     Return ((None, exampleState\<lparr>name := ''grant''\<rparr>),
       \<lparr>createGrantScript = [], listGrantsScript = [],
        revokeGrantScript = [],
        calls = [exampleCreateCall, exampleCreateCall, exampleListCall]\<rparr>) \<and>
   resourceAwsKmsGrantCreate 1 exampleNewState
     (exampleKMS [(None, Some exampleInvalidArn), (None, Some exampleInvalidArn)] [] []) =
     Return ((Some (DeadlineExceededError (createRetryWarning ''key-1'' exampleInvalidArn)),
         exampleNewState),
       \<lparr>createGrantScript = [], listGrantsScript = [],
        revokeGrantScript = [], calls = [exampleCreateCall, exampleCreateCall]\<rparr>) \<and>
   createGrantAttempt (createGrantInput exampleNewState)
     (None, exampleKMS [(None, Some exampleInvalidArn)] [] []) =
     Return (Some (RetryableError (createRetryWarning ''key-1'' exampleInvalidArn)),
       (None,
        \<lparr>createGrantScript = [], listGrantsScript = [], revokeGrantScript = [],
         calls = [exampleCreateCall]\<rparr>))"
proof -
  note claim = resourceAwsKmsGrantCreate_retry_classification
  have immediately: "resourceAwsKmsGrantCreate 1 exampleNewState
     (exampleKMS [(None, Some (AwsError ''AccessDeniedException'' ''denied'')),
                  (None, Some exampleInvalidArn)] [] []) =
     Return ((Some (AwsError ''AccessDeniedException'' ''denied''), exampleNewState),
       \<lparr>createGrantScript = [(None, Some exampleInvalidArn)], listGrantsScript = [],
        revokeGrantScript = [], calls = [exampleCreateCall]\<rparr>)"
    using claim [where n = 1 and d = exampleNewState and fails = "[]" and out = None
        and e = "AwsError ''AccessDeniedException'' ''denied''"
        and rest = "[(None, Some exampleInvalidArn)]"
        and conn = "exampleKMS [(None, Some (AwsError ''AccessDeniedException'' ''denied'')),
                  (None, Some exampleInvalidArn)] [] []",
        THEN conjunct2, THEN conjunct1]
    by (simp add: example_valid example_retryable createFailures_def exampleKMS_def
        exampleCreateCall_def)
  have later: "resourceAwsKmsGrantCreate 1 exampleNewState
     (exampleKMS [(None, Some exampleInvalidArn), (None, Some (OtherError ''connection reset''))]
        [] []) =
     Return ((Some (OtherError ''connection reset''), exampleNewState),
       \<lparr>createGrantScript = [], listGrantsScript = [],
        revokeGrantScript = [], calls = [exampleCreateCall, exampleCreateCall]\<rparr>)"
    using claim [where n = 1 and d = exampleNewState and fails = "[(None, exampleInvalidArn)]"
        and out = None and e = "OtherError ''connection reset''" and rest = "[]"
        and conn = "exampleKMS [(None, Some exampleInvalidArn),
          (None, Some (OtherError ''connection reset''))] [] []",
        THEN conjunct2, THEN conjunct1]
    by (simp add: example_valid example_retryable createFailures_def exampleKMS_def
        exampleCreateCall_def)
  have read: "resourceAwsKmsGrantRead 1 exampleState
      \<lparr>createGrantScript = [], listGrantsScript = [answer exampleLastPage],
        revokeGrantScript = [], calls = [exampleCreateCall, exampleCreateCall]\<rparr> =
     Return ((None, exampleState\<lparr>name := ''grant''\<rparr>),
       \<lparr>createGrantScript = [], listGrantsScript = [],
        revokeGrantScript = [],
        calls = [exampleCreateCall, exampleCreateCall, exampleListCall]\<rparr>)"
    using resourceAwsKmsGrantRead_found_after [of exampleState "[]" exampleEmptyPage "[]"
        exampleLastPage "exampleGrant ''abc123''" 0 1
        "\<lparr>createGrantScript = [], listGrantsScript = [answer exampleLastPage],
          revokeGrantScript = [], calls = [exampleCreateCall, exampleCreateCall]\<rparr>" "[]"]
    by (simp add: example_readGrant) (simp add: example_defs2)
  have created: "resourceAwsKmsGrantCreate 1 exampleNewState
     (exampleKMS [(None, Some exampleInvalidArn),
                  (Some \<lparr>cgoGrantId = Some ''abc123'', cgoGrantToken = Some ''token''\<rparr>, None)]
        [exampleLastPage] []) =
     Return ((None, exampleState\<lparr>name := ''grant''\<rparr>),
       \<lparr>createGrantScript = [], listGrantsScript = [],
        revokeGrantScript = [],
        calls = [exampleCreateCall, exampleCreateCall, exampleListCall]\<rparr>)"
    using claim [where n = 1 and d = exampleNewState and fails = "[(None, exampleInvalidArn)]"
        and created = "\<lparr>cgoGrantId = Some ''abc123'', cgoGrantToken = Some ''token''\<rparr>"
        and grantId = "''abc123''" and rest = "[]"
        and conn = "exampleKMS [(None, Some exampleInvalidArn),
                  (Some \<lparr>cgoGrantId = Some ''abc123'', cgoGrantToken = Some ''token''\<rparr>, None)]
            [exampleLastPage] []",
        THEN conjunct2, THEN conjunct2, THEN conjunct1] read
    by (simp add: example_valid example_retryable createFailures_def exampleKMS_def
        exampleCreateCall_def example_created)
  have exhausted: "resourceAwsKmsGrantCreate 1 exampleNewState
     (exampleKMS [(None, Some exampleInvalidArn), (None, Some exampleInvalidArn)] [] []) =
     Return ((Some (DeadlineExceededError (createRetryWarning ''key-1'' exampleInvalidArn)),
         exampleNewState),
       \<lparr>createGrantScript = [], listGrantsScript = [],
        revokeGrantScript = [], calls = [exampleCreateCall, exampleCreateCall]\<rparr>)"
    using claim [where n = 1 and d = exampleNewState and fails = "[(None, exampleInvalidArn)]"
        and out = None and e = exampleInvalidArn and rest = "[]"
        and conn = "exampleKMS [(None, Some exampleInvalidArn), (None, Some exampleInvalidArn)]
          [] []",
        THEN conjunct2, THEN conjunct2, THEN conjunct2]
    by (simp add: example_valid example_retryable createFailures_def exampleKMS_def
        exampleCreateCall_def) (simp add: exampleNewState_def)
  have attempt: "createGrantAttempt (createGrantInput exampleNewState)
     (None, exampleKMS [(None, Some exampleInvalidArn)] [] []) =
     Return (Some (RetryableError (createRetryWarning ''key-1'' exampleInvalidArn)),
       (None,
        \<lparr>createGrantScript = [], listGrantsScript = [], revokeGrantScript = [],
         calls = [exampleCreateCall]\<rparr>))"
    using claim [where out = None and e = exampleInvalidArn and rest = "[]" and x = None
        and input = "createGrantInput exampleNewState"
        and conn = "exampleKMS [(None, Some exampleInvalidArn)] [] []", THEN conjunct1]
    by (simp add: example_retryable exampleKMS_def exampleCreateCall_def)
      (simp add: createGrantInput_def exampleNewState_def)
  from immediately later created exhausted attempt show ?thesis by simp
qed

text \<open>
  C5: \<^verbatim>\<open>Delete\<close>. If the \<^verbatim>\<open>RevokeGrant\<close> call fails, its error is returned, the state is
  unchanged (the identifier is not cleared) and nothing else is called. Whenever \<^verbatim>\<open>Delete\<close>
  returns it has made exactly one \<^verbatim>\<open>RevokeGrant\<close> call; if it returns an error the state is
  unchanged, and if it returns no error the identifier is cleared and the state of the
  connection is the one in which a search has just returned \<^verbatim>\<open>KmsGrantMissingError\<close>. When
  the revoke succeeds and the listing does not hold the grant, \<^verbatim>\<open>Delete\<close> succeeds on the
  first poll; when the listing still holds the grant on the first \<open>k\<close> polls, \<open>k\<close> within the
  budget, and then no more, \<^verbatim>\<open>Delete\<close> polls \<open>k + 1\<close> times and succeeds; when the listing
  holds the grant on every poll of the budget, \<^verbatim>\<open>Delete\<close> returns the deadline-exceeded error
  and leaves the identifier in place.
\<close>

theorem resourceAwsKmsGrantDelete_revoke_then_wait:
  "(revokeGrantScript conn = Some e # revokes \<longrightarrow>
      resourceAwsKmsGrantDelete n d conn =
        Return ((Some e, d),
          conn\<lparr>revokeGrantScript := revokes,
               calls := calls conn @
                 [RevokeGrantCall \<lparr>rgiGrantId = grant_id d, rgiKeyId = key_id d\<rparr>]\<rparr>)) \<and>
   (resourceAwsKmsGrantDelete n d conn = Return ((err, d'), conn') \<longrightarrow>
      filter isRevokeGrantCall (calls conn') =
        filter isRevokeGrantCall (calls conn) @
          [RevokeGrantCall \<lparr>rgiGrantId = grant_id d, rgiKeyId = key_id d\<rparr>] \<and>
      (err \<noteq> None \<longrightarrow> d' = d) \<and>
      (err = None \<longrightarrow> d' = d\<lparr>Id := []\<rparr> \<and>
         (\<exists>conn0. findKmsGrantById n (key_id d) (grant_id d) None conn0 =
            Return ((None,
              Some (KmsGrantMissingError (missingMessage (grant_id d) (key_id d)))), conn')))) \<and>
   (revokeGrantScript conn = None # revokes \<and>
    pagesWithout (grant_id d) pages \<and> lastWithout (grant_id d) page \<and>
    listGrantsScript conn = map answer (pages @ [page]) @ rest \<longrightarrow>
      resourceAwsKmsGrantDelete n d conn =
        Return ((None, d\<lparr>Id := []\<rparr>),
          conn\<lparr>revokeGrantScript := revokes, listGrantsScript := rest,
               calls := calls conn @
                 [RevokeGrantCall \<lparr>rgiGrantId = grant_id d, rgiKeyId = key_id d\<rparr>] @
                 fetches (key_id d) None pages\<rparr>)) \<and>
   (revokeGrantScript conn = None # revokes \<and>
    pagesWithout (grant_id d) pages \<and> lastWithout (grant_id d) page \<and>
    pagesWithout (grant_id d) pages' \<and>
    getKmsGrantById (Grants page') (grant_id d) = Return (Some grant) \<and> k \<le> n \<and>
    listGrantsScript conn =
      concat (replicate k (map answer (pages' @ [page']))) @ map answer (pages @ [page]) @ rest \<longrightarrow>
      resourceAwsKmsGrantDelete n d conn =
        Return ((None, d\<lparr>Id := []\<rparr>),
          conn\<lparr>revokeGrantScript := revokes, listGrantsScript := rest,
               calls := calls conn @
                 [RevokeGrantCall \<lparr>rgiGrantId = grant_id d, rgiKeyId = key_id d\<rparr>] @
                 concat (replicate k (fetches (key_id d) None pages')) @
                 fetches (key_id d) None pages\<rparr>)) \<and>
   (revokeGrantScript conn = None # revokes \<and>
    pagesWithout (grant_id d) pages' \<and>
    getKmsGrantById (Grants page') (grant_id d) = Return (Some grant) \<and>
    listGrantsScript conn = concat (replicate (Suc n) (map answer (pages' @ [page']))) @ rest \<longrightarrow>
      resourceAwsKmsGrantDelete n d conn =
        Return ((Some (DeadlineExceededError (stillExists (grant_id d))), d),
          conn\<lparr>revokeGrantScript := revokes, listGrantsScript := rest,
               calls := calls conn @
                 [RevokeGrantCall \<lparr>rgiGrantId = grant_id d, rgiKeyId = key_id d\<rparr>] @
                 concat (replicate (Suc n) (fetches (key_id d) None pages'))\<rparr>))"
proof (intro conjI impI)
  assume "revokeGrantScript conn = Some e # revokes"
  then show "resourceAwsKmsGrantDelete n d conn =
        Return ((Some e, d),
          conn\<lparr>revokeGrantScript := revokes,
               calls := calls conn @
                 [RevokeGrantCall \<lparr>rgiGrantId = grant_id d, rgiKeyId = key_id d\<rparr>]\<rparr>)"
    by (rule resourceAwsKmsGrantDelete_revoke_fails)
next
  assume r: "resourceAwsKmsGrantDelete n d conn = Return ((err, d'), conn')"
  show "filter isRevokeGrantCall (calls conn') =
        filter isRevokeGrantCall (calls conn) @
          [RevokeGrantCall \<lparr>rgiGrantId = grant_id d, rgiKeyId = key_id d\<rparr>]"
    by (rule resourceAwsKmsGrantDelete_returns(1) [OF r])
  show "d' = d" if "err \<noteq> None"
    using that by (rule resourceAwsKmsGrantDelete_returns(2) [OF r])
  show "d' = d\<lparr>Id := []\<rparr>" if "err = None"
    using resourceAwsKmsGrantDelete_returns(3) [OF r that] by simp
  show "\<exists>conn0. findKmsGrantById n (key_id d) (grant_id d) None conn0 =
            Return ((None,
              Some (KmsGrantMissingError (missingMessage (grant_id d) (key_id d)))), conn')"
    if "err = None"
    using resourceAwsKmsGrantDelete_returns(3) [OF r that] by simp
next
  assume "revokeGrantScript conn = None # revokes \<and>
    pagesWithout (grant_id d) pages \<and> lastWithout (grant_id d) page \<and>
    listGrantsScript conn = map answer (pages @ [page]) @ rest"
  then show "resourceAwsKmsGrantDelete n d conn =
        Return ((None, d\<lparr>Id := []\<rparr>),
          conn\<lparr>revokeGrantScript := revokes, listGrantsScript := rest,
               calls := calls conn @
                 [RevokeGrantCall \<lparr>rgiGrantId = grant_id d, rgiKeyId = key_id d\<rparr>] @
                 fetches (key_id d) None pages\<rparr>)"
    by (intro resourceAwsKmsGrantDelete_gone_first_poll) simp_all
next
  assume "revokeGrantScript conn = None # revokes \<and>
    pagesWithout (grant_id d) pages \<and> lastWithout (grant_id d) page \<and>
    pagesWithout (grant_id d) pages' \<and>
    getKmsGrantById (Grants page') (grant_id d) = Return (Some grant) \<and> k \<le> n \<and>
    listGrantsScript conn =
      concat (replicate k (map answer (pages' @ [page']))) @ map answer (pages @ [page]) @ rest"
  then show "resourceAwsKmsGrantDelete n d conn =
        Return ((None, d\<lparr>Id := []\<rparr>),
          conn\<lparr>revokeGrantScript := revokes, listGrantsScript := rest,
               calls := calls conn @
                 [RevokeGrantCall \<lparr>rgiGrantId = grant_id d, rgiKeyId = key_id d\<rparr>] @
                 concat (replicate k (fetches (key_id d) None pages')) @
                 fetches (key_id d) None pages\<rparr>)"
    by (intro resourceAwsKmsGrantDelete_gone_after [where grant = grant]) simp_all
next
  assume "revokeGrantScript conn = None # revokes \<and>
    pagesWithout (grant_id d) pages' \<and>
    getKmsGrantById (Grants page') (grant_id d) = Return (Some grant) \<and>
    listGrantsScript conn = concat (replicate (Suc n) (map answer (pages' @ [page']))) @ rest"
  then show "resourceAwsKmsGrantDelete n d conn =
        Return ((Some (DeadlineExceededError (stillExists (grant_id d))), d),
          conn\<lparr>revokeGrantScript := revokes, listGrantsScript := rest,
               calls := calls conn @
                 [RevokeGrantCall \<lparr>rgiGrantId = grant_id d, rgiKeyId = key_id d\<rparr>] @
                 concat (replicate (Suc n) (fetches (key_id d) None pages'))\<rparr>)"
    by (intro resourceAwsKmsGrantDelete_found_throughout [where grant = grant]) simp_all
qed

theorem resourceAwsKmsGrantDelete_revoke_then_wait_witness:
  "resourceAwsKmsGrantDelete 1 exampleState
     (exampleKMS [] [exampleEmptyPage] [Some (AwsError ''AccessDeniedException'' ''denied'')]) =
     Return ((Some (AwsError ''AccessDeniedException'' ''denied''), exampleState),
       \<lparr>createGrantScript = [], listGrantsScript = [answer exampleEmptyPage],
        revokeGrantScript = [], calls = [exampleRevokeCall]\<rparr>) \<and>
   resourceAwsKmsGrantDelete 1 exampleState (exampleKMS [] [exampleEmptyPage] [None]) =
     Return ((None, exampleState\<lparr>Id := []\<rparr>),
       \<lparr>createGrantScript = [], listGrantsScript = [],
        revokeGrantScript = [], calls = [exampleRevokeCall, exampleListCall]\<rparr>) \<and>
   filter isRevokeGrantCall [exampleRevokeCall, exampleListCall] = [exampleRevokeCall] \<and>
   resourceAwsKmsGrantDelete 1 exampleState
     (exampleKMS [] [exampleLastPage, exampleEmptyPage] [None]) =
     Return ((None, exampleState\<lparr>Id := []\<rparr>),
       \<lparr>createGrantScript = [], listGrantsScript = [],
        revokeGrantScript = [],
        calls = [exampleRevokeCall, exampleListCall, exampleListCall]\<rparr>) \<and>
   resourceAwsKmsGrantDelete 1 exampleState
     (exampleKMS [] [exampleLastPage, exampleLastPage] [None]) =
     Return ((Some (DeadlineExceededError (stillExists ''abc123'')), exampleState),
       \<lparr>createGrantScript = [], listGrantsScript = [],
        revokeGrantScript = [],
        calls = [exampleRevokeCall, exampleListCall, exampleListCall]\<rparr>)"
proof -
  note claim = resourceAwsKmsGrantDelete_revoke_then_wait
  have fails: "resourceAwsKmsGrantDelete 1 exampleState
     (exampleKMS [] [exampleEmptyPage] [Some (AwsError ''AccessDeniedException'' ''denied'')]) =
     Return ((Some (AwsError ''AccessDeniedException'' ''denied''), exampleState),
       \<lparr>createGrantScript = [], listGrantsScript = [answer exampleEmptyPage],
        revokeGrantScript = [], calls = [exampleRevokeCall]\<rparr>)"
    using claim [where n = 1 and d = exampleState and revokes = "[]"
        and e = "AwsError ''AccessDeniedException'' ''denied''"
        and conn = "exampleKMS [] [exampleEmptyPage]
          [Some (AwsError ''AccessDeniedException'' ''denied'')]", THEN conjunct1]
    by (simp add: example_defs)
  have first: "resourceAwsKmsGrantDelete 1 exampleState (exampleKMS [] [exampleEmptyPage] [None]) =
     Return ((None, exampleState\<lparr>Id := []\<rparr>),
       \<lparr>createGrantScript = [], listGrantsScript = [],
        revokeGrantScript = [], calls = [exampleRevokeCall, exampleListCall]\<rparr>)"
    using claim [where n = 1 and d = exampleState and revokes = "[]" and pages = "[]"
        and page = exampleEmptyPage and rest = "[]"
        and conn = "exampleKMS [] [exampleEmptyPage] [None]",
        THEN conjunct2, THEN conjunct2, THEN conjunct1]
    by (simp add: example_defs)
  have once: "filter isRevokeGrantCall [exampleRevokeCall, exampleListCall] = [exampleRevokeCall]"
    using claim [where n = 1 and d = exampleState
        and conn = "exampleKMS [] [exampleEmptyPage] [None]" and err = None
        and d' = "exampleState\<lparr>Id := []\<rparr>"
        and conn' = "\<lparr>createGrantScript = [], listGrantsScript = [],
          revokeGrantScript = [], calls = [exampleRevokeCall, exampleListCall]\<rparr>",
        THEN conjunct2, THEN conjunct1, THEN mp, OF first, THEN conjunct1]
    by (simp add: example_defs)
  have after: "resourceAwsKmsGrantDelete 1 exampleState
     (exampleKMS [] [exampleLastPage, exampleEmptyPage] [None]) =
     Return ((None, exampleState\<lparr>Id := []\<rparr>),
       \<lparr>createGrantScript = [], listGrantsScript = [],
        revokeGrantScript = [],
        calls = [exampleRevokeCall, exampleListCall, exampleListCall]\<rparr>)"
    using claim [where n = 1 and d = exampleState and revokes = "[]" and pages = "[]"
        and page = exampleEmptyPage and rest = "[]" and pages' = "[]"
        and page' = exampleLastPage and grant = "exampleGrant ''abc123''" and k = 1
        and conn = "exampleKMS [] [exampleLastPage, exampleEmptyPage] [None]",
        THEN conjunct2, THEN conjunct2, THEN conjunct2, THEN conjunct1]
    by (simp add: example_defs)
  have throughout: "resourceAwsKmsGrantDelete 1 exampleState
     (exampleKMS [] [exampleLastPage, exampleLastPage] [None]) =
     Return ((Some (DeadlineExceededError (stillExists ''abc123'')), exampleState),
       \<lparr>createGrantScript = [], listGrantsScript = [],
        revokeGrantScript = [],
        calls = [exampleRevokeCall, exampleListCall, exampleListCall]\<rparr>)"
    using claim [where n = 1 and d = exampleState and revokes = "[]" and rest = "[]"
        and pages' = "[]" and page' = exampleLastPage and grant = "exampleGrant ''abc123''"
        and conn = "exampleKMS [] [exampleLastPage, exampleLastPage] [None]",
        THEN conjunct2, THEN conjunct2, THEN conjunct2, THEN conjunct2]
    by (simp add: example_defs)
  from fails first once after throughout show ?thesis by simp
qed

text \<open>
  C6: \<^verbatim>\<open>Read\<close> of an identifier that is absent from the remote listing. The branch of
  \<^verbatim>\<open>resourceAwsKmsGrantRead\<close> that clears the identifier is taken when the lookup returns
  neither a grant nor an error, which \<^verbatim>\<open>findKmsGrantByIdWithRetry\<close> never does
  (\<open>findKmsGrantByIdWithRetry_grant_or_error\<close>), so \<^verbatim>\<open>Read\<close> never clears the identifier
  (\<open>resourceAwsKmsGrantRead_never_clears\<close>). Here the state has the identifier \<^verbatim>\<open>abc123\<close>, the
  budget is one retry and the listing is empty on both lookups: \<^verbatim>\<open>Read\<close> returns the
  deadline-exceeded error that wraps \<^verbatim>\<open>KmsGrantMissingError\<close> and leaves the state, with its
  identifier, as it was.
\<close>

theorem resourceAwsKmsGrantRead_absent_returns_error:
  "resourceAwsKmsGrantRead 1 exampleState (exampleKMS [] [exampleEmptyPage, exampleEmptyPage] []) =
     Return ((Some (DeadlineExceededError exampleMissing), exampleState),
       \<lparr>createGrantScript = [], listGrantsScript = [], revokeGrantScript = [],
        calls = [exampleListCall, exampleListCall]\<rparr>) \<and>
   Id exampleState = ''abc123''"
  using resourceAwsKmsGrantRead_missing_throughout
    [of exampleState "[]" exampleEmptyPage "exampleKMS [] [exampleEmptyPage, exampleEmptyPage] []"
      1 "[]"]
  by (simp add: example_defs2)




text \<open>
  C8: \<^verbatim>\<open>Read\<close> of a grant whose grantee principal does not start with \<^verbatim>\<open>arn:aws\<close>. For a
  grant that has a name the state keeps its principal and the other fields are taken from the
  grant. For a grant without a name (the attribute is optional) the lookup returns the grant
  and \<^verbatim>\<open>Read\<close> then panics: \<^verbatim>\<open>*grant.Name\<close> is dereferenced without the nil check that the
  retiring principal and the constraints get.
\<close>

theorem resourceAwsKmsGrantRead_unnamed_grant_panics:
  "findKmsGrantByIdWithRetry 1 ''key-1'' ''abc123'' (exampleKMS [] [exampleUnnamedPage] []) =
     Return ((Some exampleUnnamedGrant, None),
       \<lparr>createGrantScript = [], listGrantsScript = [], revokeGrantScript = [],
        calls = [exampleListCall]\<rparr>) \<and>
   GranteePrincipal exampleUnnamedGrant = Some ''AROAJYCVIVUZIMTXXXXX'' \<and>
   Name exampleUnnamedGrant = None \<and>
   resourceAwsKmsGrantRead 1 exampleState (exampleKMS [] [exampleUnnamedPage] []) = Panic \<and>
   resourceAwsKmsGrantRead 1 exampleState (exampleKMS [] [exampleInternalPage] []) =
     Return ((None,
       exampleState\<lparr>operations := [''Decrypt''], name := ''renamed'',
         constraints := [\<lparr>encryption_context_equals = Some [(''env'', ''test'')],
                          encryption_context_subset = None\<rparr>]\<rparr>),
       \<lparr>createGrantScript = [], listGrantsScript = [], revokeGrantScript = [],
        calls = [exampleListCall]\<rparr>)"
proof -
  have find: "findKmsGrantByIdWithRetry 1 ''key-1'' ''abc123''
      (exampleKMS [] [exampleUnnamedPage] []) =
     Return ((Some exampleUnnamedGrant, None),
       \<lparr>createGrantScript = [], listGrantsScript = [], revokeGrantScript = [],
        calls = [exampleListCall]\<rparr>)"
    using findKmsGrantByIdWithRetry_found_after [of "''abc123''" "[]" exampleEmptyPage "[]"
        exampleUnnamedPage exampleUnnamedGrant 0 1 "exampleKMS [] [exampleUnnamedPage] []"
        "[]" "''key-1''"]
    by (simp add: example_defs2 exampleUnnamedPage_def exampleUnnamedGrant_def)
  have "readGrant exampleUnnamedGrant exampleState = Panic"
    by (simp add: readGrant_def setGranteePrincipal_def setName_def HasPrefix_def
        exampleUnnamedGrant_def)
  with find have panics: "resourceAwsKmsGrantRead 1 exampleState
      (exampleKMS [] [exampleUnnamedPage] []) = Panic"
    by (simp add: resourceAwsKmsGrantRead_def exampleState_def)
  have named: "findKmsGrantByIdWithRetry 1 (key_id exampleState) (Id exampleState)
      (exampleKMS [] [exampleInternalPage] []) =
     Return ((Some exampleInternalGrant, None),
       \<lparr>createGrantScript = [], listGrantsScript = [], revokeGrantScript = [],
        calls = [exampleListCall]\<rparr>)"
    using findKmsGrantByIdWithRetry_found_after [of "''abc123''" "[]" exampleEmptyPage "[]"
        exampleInternalPage exampleInternalGrant 0 1 "exampleKMS [] [exampleInternalPage] []"
        "[]" "''key-1''"]
    by (simp add: example_defs2)
  from resourceAwsKmsGrantRead_found [OF named, of "''AROAJYCVIVUZIMTXXXXX''" "''renamed''"]
  have kept: "resourceAwsKmsGrantRead 1 exampleState (exampleKMS [] [exampleInternalPage] []) =
     Return ((None,
       exampleState\<lparr>operations := [''Decrypt''], name := ''renamed'',
         constraints := [\<lparr>encryption_context_equals = Some [(''env'', ''test'')],
                          encryption_context_subset = None\<rparr>]\<rparr>),
       \<lparr>createGrantScript = [], listGrantsScript = [], revokeGrantScript = [],
        calls = [exampleListCall]\<rparr>)"
    by (simp add: example_defs2 HasPrefix_def flattenKmsGrantConstraints_def)
  from find panics kept show ?thesis by (simp add: exampleUnnamedGrant_def)
qed

text \<open>
  C9: the \<^verbatim>\<open>Error()\<close> method of the missing-grant error type calls itself, so for every value
  of the type a call of \<^verbatim>\<open>Error()\<close> does not return (it never yields the stored message, nor
  any other string).
\<close>

theorem KmsGrantMissingError_Error_never_returns:
  "KmsGrantMissingError_Error e = None"
proof (cases "KmsGrantMissingError_Error e")
  case None
  then show ?thesis .
next
  case (Some msg)
  then show ?thesis
    using KmsGrantMissingError_Error_not_Some by blast
qed

text \<open>
  C10: \<^verbatim>\<open>Exists\<close> returns true whenever the retried lookup returns an error or a grant and
  false only when it returns neither, passing the error on. So when the grant stays missing
  for the whole retry budget, \<^verbatim>\<open>Exists\<close> reports true together with the deadline-exceeded
  error, not false without an error.
\<close>

theorem resourceAwsKmsGrantExists_true_on_error:
  "resourceAwsKmsGrantExists n d conn =
     (case findKmsGrantByIdWithRetry n (key_id d) (Id d) conn of
        Return ((grant, err), conn') \<Rightarrow> Return ((err \<noteq> None \<or> grant \<noteq> None, err), conn')
      | Panic \<Rightarrow> Panic
      | Unscripted \<Rightarrow> Unscripted) \<and>
   (pagesWithout (Id d) pages \<and> lastWithout (Id d) page \<and>
    listGrantsScript conn = concat (replicate (Suc n) (map answer (pages @ [page]))) @ rest \<longrightarrow>
    resourceAwsKmsGrantExists n d conn =
      Return ((True,
          Some (DeadlineExceededError (KmsGrantMissingError (missingMessage (Id d) (key_id d))))),
        conn\<lparr>listGrantsScript := rest,
             calls := calls conn @ concat (replicate (Suc n) (fetches (key_id d) None pages))\<rparr>))"
proof (intro conjI impI)
  show "resourceAwsKmsGrantExists n d conn =
     (case findKmsGrantByIdWithRetry n (key_id d) (Id d) conn of
        Return ((grant, err), conn') \<Rightarrow> Return ((err \<noteq> None \<or> grant \<noteq> None, err), conn')
      | Panic \<Rightarrow> Panic
      | Unscripted \<Rightarrow> Unscripted)"
    by (rule resourceAwsKmsGrantExists_eq)
next
  assume "pagesWithout (Id d) pages \<and> lastWithout (Id d) page \<and>
    listGrantsScript conn = concat (replicate (Suc n) (map answer (pages @ [page]))) @ rest"
  then show "resourceAwsKmsGrantExists n d conn =
      Return ((True,
          Some (DeadlineExceededError (KmsGrantMissingError (missingMessage (Id d) (key_id d))))),
        conn\<lparr>listGrantsScript := rest,
             calls := calls conn @ concat (replicate (Suc n) (fetches (key_id d) None pages))\<rparr>)"
    by (intro resourceAwsKmsGrantExists_missing_throughout) simp_all
qed

theorem resourceAwsKmsGrantExists_true_on_error_witness:
  "resourceAwsKmsGrantExists 1 exampleState (exampleKMS [] [exampleEmptyPage, exampleEmptyPage] []) =
     Return ((True, Some (DeadlineExceededError exampleMissing)),
       \<lparr>createGrantScript = [], listGrantsScript = [], revokeGrantScript = [],
        calls = [exampleListCall, exampleListCall]\<rparr>)"
  using resourceAwsKmsGrantExists_true_on_error [where n = 1 and d = exampleState
      and conn = "exampleKMS [] [exampleEmptyPage, exampleEmptyPage] []" and pages = "[]"
      and page = exampleEmptyPage and rest = "[]", THEN conjunct2]
  by (simp add: example_defs2)

end
